theory Spec2Isabelle
  imports Main "HOL-Library.Sublist" "HOL-Library.Word"
begin

section \<open>Kitfile generation (pkg/lib/kitfile/generate.go)\<close>

text \<open>
  A shallow embedding of \<^verbatim>\<open>GenerateKitfile\<close> and its helpers. Strings are byte lists, as
  Go's are. Calls of \<^verbatim>\<open>output.Logf\<close> and \<^verbatim>\<open>output.Debugf\<close> only write to the log and
  are left out. Every error return of the source is a value of the type \<open>error\<close>.
\<close>

subsection \<open>The manifest (package artifact)\<close>

text \<open>
  Modelled from the spec: the declarations of \<^verbatim>\<open>kitops/pkg/artifact\<close> are not part of the
  sources at hand. The records hold the fields the spec's data model lists and
  \<^verbatim>\<open>generate.go\<close> reads or writes. A Go string field that is never assigned holds
  the empty string, a slice field that is never assigned is empty, and the pointer
  \<^verbatim>\<open>KitFile.Model\<close> is an option (\<open>None\<close> for nil).
\<close>

record Package =
  pkg_Name :: string
  pkg_Description :: string
  pkg_License :: string

record ModelPart =
  part_Path :: string

record Model =
  model_Path :: string
  model_Name :: string
  model_License :: string
  model_Parts :: "ModelPart list"

record DataSet =
  dataset_Path :: string
  dataset_License :: string

record Docs =
  docs_Path :: string
  docs_Description :: string

record Code =
  code_Path :: string
  code_License :: string

record KitFile =
  ManifestVersion :: string
  kf_Package :: Package
  kf_Model :: "Model option"
  kf_Code :: "Code list"
  kf_DataSets :: "DataSet list"
  kf_Docs :: "Docs list"

definition emptyPackage :: Package where
  "emptyPackage = \<lparr>pkg_Name = [], pkg_Description = [], pkg_License = []\<rparr>"

subsection \<open>Errors\<close>

text \<open>
  One constructor for each \<^verbatim>\<open>fmt.Errorf\<close> of the source; an error of the operating
  system is kept as its message. \<open>NilModelDereference\<close> is the run-time panic of
  \<^verbatim>\<open>kitfile.Model.Parts = ...\<close> on a nil \<^verbatim>\<open>kitfile.Model\<close>.
\<close>

type_synonym oserror = string

datatype error =
    ErrorReadingDirectory oserror
  | FailedToAddModel error
  | FailedToReadDirectory string oserror
  | MixedContent
  | HandleAsCode
  | FailedToProcessFile string oserror
  | FailedToReadLicense oserror
  | MultipleLicensesMatched
  | NilModelDereference

subsection \<open>The platform\<close>

text \<open>
  What \<^verbatim>\<open>generate.go\<close> calls and the repository's sources at hand do not define is a
  parameter of the model: the file system (\<^verbatim>\<open>os.ReadDir\<close>, \<^verbatim>\<open>os.Stat\<close> followed by
  \<^verbatim>\<open>Size()\<close>, \<^verbatim>\<open>os.ReadFile\<close>), the license matcher (\<^verbatim>\<open>licensecheck.Scan\<close>, as the
  list of the identifiers of its matches), \<^verbatim>\<open>constants.IsDefaultKitfileName\<close>,
  \<^verbatim>\<open>filepath.Join\<close> (of two elements) and \<^verbatim>\<open>strings.ToLower\<close>. A file size is Go's
  \<^verbatim>\<open>int64\<close>: a 64-bit word read as two's complement.
\<close>

datatype DirEntry = DirEntry (Name: string) (IsDir: bool)

record env =
  ReadDir :: "string \<Rightarrow> oserror + DirEntry list"
  Stat :: "string \<Rightarrow> oserror + 64 word"
  ReadFile :: "string \<Rightarrow> oserror + string"
  Scan :: "string \<Rightarrow> string list"
  IsDefaultKitfileName :: "string \<Rightarrow> bool"
  Join :: "string \<Rightarrow> string \<Rightarrow> string"
  ToLower :: "string \<Rightarrow> string"

subsection \<open>Strings and paths\<close>

text \<open>
  \<^verbatim>\<open>strings.HasSuffix\<close>, \<^verbatim>\<open>strings.HasPrefix\<close> and \<^verbatim>\<open>strings.TrimSuffix\<close> as Go's library
  writes them, on bytes.
\<close>

definition HasSuffix :: "string \<Rightarrow> string \<Rightarrow> bool" where
  "HasSuffix s sfx \<longleftrightarrow>
     length sfx \<le> length s \<and> drop (length s - length sfx) s = sfx"

definition HasPrefix :: "string \<Rightarrow> string \<Rightarrow> bool" where
  "HasPrefix s pfx \<longleftrightarrow> length pfx \<le> length s \<and> take (length pfx) s = pfx"

definition TrimSuffix :: "string \<Rightarrow> string \<Rightarrow> string" where
  "TrimSuffix s sfx =
     (if HasSuffix s sfx then take (length s - length sfx) s else s)"

text \<open>
  \<^verbatim>\<open>filepath.Ext\<close> and \<^verbatim>\<open>filepath.Base\<close> where the path separator is \<^verbatim>\<open>/\<close> and a path has
  no volume name. \<open>Ext\<close> scans from the end of the path to the last separator for a
  dot; \<open>extScan\<close> is that loop, on the reversed path, with the bytes already passed.
\<close>

fun extScan :: "string \<Rightarrow> string \<Rightarrow> string" where
  "extScan [] seen = []"
| "extScan (c # cs) seen =
     (if c = CHR ''/'' then []
      else if c = CHR ''.'' then c # seen
      else extScan cs (c # seen))"

definition Ext :: "string \<Rightarrow> string" where
  "Ext path = extScan (rev path) []"

definition Base :: "string \<Rightarrow> string" where
  "Base path =
     (if path = [] then ''.''
      else
        let stripped = rev (dropWhile (\<lambda>c. c = CHR ''/'') (rev path));
            element = rev (takeWhile (\<lambda>c. c \<noteq> CHR ''/'') (rev stripped))
        in if element = [] then ''/'' else element)"

subsection \<open>File types and the suffix tables\<close>

datatype fileType =
    fileTypeModel
  | fileTypeDataset
  | fileTypeCode
  | fileTypeDocs
  | fileTypeMetadata
  | fileTypeUnknown

text \<open>The values \<^verbatim>\<open>iota\<close> gives the constants, and the conversion back.\<close>

fun fileType_int :: "fileType \<Rightarrow> nat" where
  "fileType_int fileTypeModel = 0"
| "fileType_int fileTypeDataset = 1"
| "fileType_int fileTypeCode = 2"
| "fileType_int fileTypeDocs = 3"
| "fileType_int fileTypeMetadata = 4"
| "fileType_int fileTypeUnknown = 5"

definition fileType_of :: "nat \<Rightarrow> fileType" where
  "fileType_of n =
     (if n = 0 then fileTypeModel
      else if n = 1 then fileTypeDataset
      else if n = 2 then fileTypeCode
      else if n = 3 then fileTypeDocs
      else if n = 4 then fileTypeMetadata
      else fileTypeUnknown)"

definition modelWeightsSuffixes :: "string list" where
  "modelWeightsSuffixes =
     [''.safetensors'', ''.pkl'', ''.joblib'',
      ''.bin'', ''.pth'', ''.pt'', ''.mar'', ''.pt2'', ''.ptl'',
      ''.pb'', ''.ckpt'', ''.tflite'', ''.tfrecords'',
      ''.npy'', ''.npz'',
      ''.keras'', ''.h5'', ''.caffemodel'', ''.pmml'', ''.coreml'',
      ''.gguf'', ''.ggml'', ''.ggmf'', ''.llamafile'', ''.onnx'']"

definition docsSuffixes :: "string list" where
  "docsSuffixes = [''.md'', ''.adoc'', ''.html'', ''.pdf'']"

definition metadataSuffixes :: "string list" where
  "metadataSuffixes = [''.json'', ''.yaml'', ''.xml'', ''.txt'']"

definition datasetSuffixes :: "string list" where
  "datasetSuffixes = [''.tar'', ''.zip'', ''.parquet'', ''.csv'']"

fun anySuffix :: "string \<Rightarrow> string list \<Rightarrow> bool" where
  "anySuffix query [] = False"
| "anySuffix query (sfx # sfxs) =
     (if HasSuffix query sfx then True else anySuffix query sfxs)"

definition determineFileType :: "string \<Rightarrow> fileType" where
  "determineFileType filename =
     (if anySuffix filename modelWeightsSuffixes then fileTypeModel
      else if anySuffix filename metadataSuffixes then fileTypeMetadata
      else if anySuffix filename docsSuffixes then fileTypeDocs
      else if anySuffix filename datasetSuffixes then fileTypeDataset
      else fileTypeUnknown)"

subsection \<open>detectLicense\<close>

definition detectLicense :: "env \<Rightarrow> string \<Rightarrow> string \<times> error option" where
  "detectLicense e licensePath =
     (case ReadFile e licensePath of
        Inl err \<Rightarrow> ([], Some (FailedToReadLicense err))
      | Inr license \<Rightarrow>
          (case Scan e license of
             [m] \<Rightarrow> (m, None)
           | _ \<Rightarrow> ([], Some MultipleLicensesMatched)))"

subsection \<open>addModelToKitfile\<close>

text \<open>
  Go's \<^verbatim>\<open>int64\<close> arithmetic on integers, with the wrap-around written out: \<open>wrap64\<close>
  reduces an integer to the two's complement range, and \<open>div64\<close> is the quotient
  truncated towards zero.
\<close>

definition wrap64 :: "int \<Rightarrow> int" where
  "wrap64 x = (x + 2 ^ 63) mod 2 ^ 64 - 2 ^ 63"

definition div64 :: "int \<Rightarrow> int \<Rightarrow> int" where
  "div64 a b = wrap64 (sgn a * sgn b * (\<bar>a\<bar> div \<bar>b\<bar>))"

text \<open>
  The first loop: the state is \<^verbatim>\<open>largestFile\<close>, \<^verbatim>\<open>largestSize\<close> and the running sum
  \<^verbatim>\<open>averageSize\<close>; a failing \<^verbatim>\<open>os.Stat\<close> returns at once.
\<close>

fun sizeLoop ::
  "env \<Rightarrow> string \<Rightarrow> string list \<Rightarrow> string \<times> int \<times> int \<Rightarrow> error + (string \<times> int \<times> int)" where
  "sizeLoop e baseDir [] st = Inr st"
| "sizeLoop e baseDir (modelFile # rest) (largestFile, largestSize, averageSize) =
     (case Stat e (Join e baseDir modelFile) of
        Inl err \<Rightarrow> Inl (FailedToProcessFile (Join e baseDir modelFile) err)
      | Inr info \<Rightarrow>
          let size = sint info in
          sizeLoop e baseDir rest
            (if size > largestSize then modelFile else largestFile,
             if size > largestSize then size else largestSize,
             wrap64 (averageSize + size)))"

definition addModelToKitfile :: "env \<Rightarrow> KitFile \<Rightarrow> string \<Rightarrow> string list \<Rightarrow> error + KitFile" where
  "addModelToKitfile e kitfile baseDir modelPaths =
     (case modelPaths of
        [] \<Rightarrow> Inr kitfile
      | [p] \<Rightarrow>
          let filename = Base p in
          Inr (kitfile\<lparr>kf_Model := Some \<lparr>model_Path = p,
                 model_Name = TrimSuffix filename (Ext filename),
                 model_License = [], model_Parts = []\<rparr>\<rparr>)
      | first # others \<Rightarrow>
          (case sizeLoop e baseDir modelPaths ([], 0, 0) of
             Inl err \<Rightarrow> Inl err
           | Inr (largestFile, largestSize, sumSize) \<Rightarrow>
               let averageSize = div64 sumSize (int (length modelPaths)) in
               if largestSize > wrap64 (averageSize + div64 averageSize 2) then
                 Inr (kitfile\<lparr>kf_Model := Some \<lparr>model_Path = largestFile,
                        model_Name = TrimSuffix largestFile (Ext largestFile),
                        model_License = [],
                        model_Parts = map (\<lambda>modelFile. \<lparr>part_Path = modelFile\<rparr>)
                          (filter (\<lambda>modelFile. modelFile \<noteq> largestFile) modelPaths)\<rparr>\<rparr>)
               else
                 Inr (kitfile\<lparr>kf_Model := Some \<lparr>model_Path = first,
                        model_Name = [],
                        model_License = [],
                        model_Parts = map (\<lambda>modelFile. \<lparr>part_Path = modelFile\<rparr>) others\<rparr>\<rparr>)))"

subsection \<open>addDirToKitfile\<close>

text \<open>
  \<^verbatim>\<open>directoryContents\<close> is an array of six lists indexed by the file type's number. The
  first loop sorts the entries of the directory into it and collects the model files;
  the second runs over the array by index and finds the overall type.
\<close>

fun classifyEntries ::
  "env \<Rightarrow> string \<Rightarrow> DirEntry list \<Rightarrow> string list \<times> string list list
     \<Rightarrow> string list \<times> string list list" where
  "classifyEntries e dirPath [] st = st"
| "classifyEntries e dirPath (entry # entries) (modelFiles, directoryContents) =
     (let relPath = Join e dirPath (Name entry) in
      if IsDir entry then
        classifyEntries e dirPath entries
          (modelFiles,
           directoryContents[fileType_int fileTypeUnknown :=
             directoryContents ! fileType_int fileTypeUnknown @ [relPath]])
      else
        let fileType = determineFileType (Name entry) in
        classifyEntries e dirPath entries
          (if fileType = fileTypeModel then modelFiles @ [relPath] else modelFiles,
           directoryContents[fileType_int fileType :=
             directoryContents ! fileType_int fileType @ [relPath]]))"

fun contentsLoop :: "(nat \<times> string list) list \<Rightarrow> fileType \<times> bool \<Rightarrow> fileType \<times> bool" where
  "contentsLoop [] st = st"
| "contentsLoop ((fType, files) # rest) (overallFiletype, directoryHasMixedContents) =
     (if length files > 0 \<and> fileType_of fType \<noteq> fileTypeMetadata then
        contentsLoop rest
          (fileType_of fType,
           if overallFiletype \<noteq> fileTypeUnknown then True else directoryHasMixedContents)
      else contentsLoop rest (overallFiletype, directoryHasMixedContents))"

text \<open>
  The result is the manifest as the call leaves it, the returned \<^verbatim>\<open>modelFiles\<close> and the
  returned error (\<open>None\<close> for nil): Go returns both values on every path.
\<close>

definition addDirToKitfile ::
  "env \<Rightarrow> KitFile \<Rightarrow> string \<Rightarrow> string \<Rightarrow> DirEntry \<Rightarrow> KitFile \<times> string list \<times> error option" where
  "addDirToKitfile e kitfile baseDir dirPath d =
     (if Name d = ''docs'' then
        (kitfile\<lparr>kf_Docs := kf_Docs kitfile @ [\<lparr>docs_Path = dirPath, docs_Description = []\<rparr>]\<rparr>,
         [], None)
      else if Name d = ''src'' \<or> Name d = ''pkg'' \<or> Name d = ''lib'' \<or> Name d = ''build'' then
        (kitfile\<lparr>kf_Code := kf_Code kitfile @ [\<lparr>code_Path = dirPath, code_License = []\<rparr>]\<rparr>,
         [], None)
      else
        (case ReadDir e (Join e baseDir dirPath) of
           Inl err \<Rightarrow> (kitfile, [], Some (FailedToReadDirectory dirPath err))
         | Inr entries \<Rightarrow>
             (case classifyEntries e dirPath entries
                     ([], replicate (fileType_int fileTypeUnknown + 1) []) of
                (modelFiles, directoryContents) \<Rightarrow>
                  (case contentsLoop (enumerate 0 directoryContents) (fileTypeUnknown, False) of
                     (overallFiletype, directoryHasMixedContents) \<Rightarrow>
                       if directoryHasMixedContents then (kitfile, modelFiles, Some MixedContent)
                       else
                         (case overallFiletype of
                            fileTypeModel \<Rightarrow>
                              (kitfile,
                               modelFiles @ directoryContents ! fileType_int fileTypeMetadata,
                               None)
                          | fileTypeDataset \<Rightarrow>
                              (kitfile\<lparr>kf_DataSets := kf_DataSets kitfile @
                                 [\<lparr>dataset_Path = dirPath, dataset_License = []\<rparr>]\<rparr>,
                               modelFiles, None)
                          | fileTypeDocs \<Rightarrow>
                              (kitfile\<lparr>kf_Docs := kf_Docs kitfile @
                                 [\<lparr>docs_Path = dirPath, docs_Description = []\<rparr>]\<rparr>,
                               modelFiles, None)
                          | _ \<Rightarrow> (kitfile, modelFiles, Some HandleAsCode))))))"

subsection \<open>GenerateKitfile\<close>

text \<open>The local variables of \<^verbatim>\<open>GenerateKitfile\<close> that the loop over the root's entries changes.\<close>

record genState =
  st_kitfile :: KitFile
  st_includeCatchallSection :: bool
  st_unprocessedDirPaths :: "string list"
  st_modelFiles :: "string list"
  st_metadataPaths :: "string list"
  st_detectedLicenseType :: string

definition addDocs :: "Docs \<Rightarrow> genState \<Rightarrow> genState" where
  "addDocs doc st = st\<lparr>st_kitfile := (st_kitfile st)\<lparr>kf_Docs := kf_Docs (st_kitfile st) @ [doc]\<rparr>\<rparr>"

text \<open>The body of the loop over the root's entries (lines 95 to 157), for one entry.\<close>

definition rootEntry :: "env \<Rightarrow> string \<Rightarrow> DirEntry \<Rightarrow> genState \<Rightarrow> genState" where
  "rootEntry e baseDir d st =
     (let filename = Name d in
      if IsDefaultKitfileName e filename then st
      else if IsDir d then
        (case addDirToKitfile e (st_kitfile st) baseDir filename d of
           (kitfile', dirModelFiles, err) \<Rightarrow>
             st\<lparr>st_kitfile := kitfile',
                st_unprocessedDirPaths :=
                  (case err of
                     Some _ \<Rightarrow> st_unprocessedDirPaths st @ [filename]
                   | None \<Rightarrow> st_unprocessedDirPaths st),
                st_modelFiles := st_modelFiles st @ dirModelFiles\<rparr>)
      else if HasPrefix (ToLower e filename) ''readme'' then
        addDocs \<lparr>docs_Path = filename, docs_Description = ''Readme file''\<rparr> st
      else if HasPrefix (ToLower e filename) ''license'' then
        (case detectLicense e (Join e baseDir filename) of
           (licenseType, err) \<Rightarrow>
             (addDocs \<lparr>docs_Path = filename, docs_Description = ''License file''\<rparr> st)
               \<lparr>st_detectedLicenseType := licenseType\<rparr>)
      else
        (case determineFileType filename of
           fileTypeModel \<Rightarrow> st\<lparr>st_modelFiles := st_modelFiles st @ [filename]\<rparr>
         | fileTypeMetadata \<Rightarrow> st\<lparr>st_metadataPaths := st_metadataPaths st @ [filename]\<rparr>
         | fileTypeDocs \<Rightarrow> addDocs \<lparr>docs_Path = filename, docs_Description = []\<rparr> st
         | fileTypeDataset \<Rightarrow>
             st\<lparr>st_kitfile := (st_kitfile st)\<lparr>kf_DataSets := kf_DataSets (st_kitfile st) @
                  [\<lparr>dataset_Path = filename, dataset_License = []\<rparr>]\<rparr>\<rparr>
         | _ \<Rightarrow> st\<lparr>st_includeCatchallSection := True\<rparr>))"

fun rootLoop :: "env \<Rightarrow> string \<Rightarrow> DirEntry list \<Rightarrow> genState \<Rightarrow> genState" where
  "rootLoop e baseDir [] st = st"
| "rootLoop e baseDir (d # ds) st = rootLoop e baseDir ds (rootEntry e baseDir d st)"

text \<open>
  Lines 159 to 172: the model, and the metadata files as its parts or as datasets.
  \<open>appendParts\<close> is the loop of line 164, which dereferences \<^verbatim>\<open>kitfile.Model\<close>.
\<close>

fun appendParts :: "KitFile \<Rightarrow> string list \<Rightarrow> error + KitFile" where
  "appendParts kitfile [] = Inr kitfile"
| "appendParts kitfile (metadataPath # rest) =
     (case kf_Model kitfile of
        None \<Rightarrow> Inl NilModelDereference
      | Some m \<Rightarrow>
          appendParts
            (kitfile\<lparr>kf_Model :=
               Some (m\<lparr>model_Parts := model_Parts m @ [\<lparr>part_Path = metadataPath\<rparr>]\<rparr>)\<rparr>)
            rest)"

definition addModelAndMetadata ::
  "env \<Rightarrow> KitFile \<Rightarrow> string \<Rightarrow> string list \<Rightarrow> string list \<Rightarrow> error + KitFile" where
  "addModelAndMetadata e kitfile baseDir modelFiles metadataPaths =
     (if length modelFiles > 0 then
        (case addModelToKitfile e kitfile baseDir modelFiles of
           Inl err \<Rightarrow> Inl (FailedToAddModel err)
         | Inr kitfile' \<Rightarrow> appendParts kitfile' metadataPaths)
      else
        Inr (kitfile\<lparr>kf_DataSets := kf_DataSets kitfile @
               map (\<lambda>metadataPath. \<lparr>dataset_Path = metadataPath, dataset_License = []\<rparr>)
                 metadataPaths\<rparr>))"

text \<open>Lines 174 to 185: one catch-all code layer, or one layer for each unprocessed directory.\<close>

definition addCodeLayers :: "KitFile \<Rightarrow> bool \<Rightarrow> string list \<Rightarrow> KitFile" where
  "addCodeLayers kitfile includeCatchallSection unprocessedDirPaths =
     (if includeCatchallSection \<or> length unprocessedDirPaths > 5 then
        kitfile\<lparr>kf_Code := [\<lparr>code_Path = ''.'', code_License = []\<rparr>]\<rparr>
      else
        kitfile\<lparr>kf_Code := kf_Code kitfile @
          map (\<lambda>path. \<lparr>code_Path = path, code_License = []\<rparr>) unprocessedDirPaths\<rparr>)"

text \<open>Lines 187 to 197: the section the detected license is written to.\<close>

definition attachLicense :: "KitFile \<Rightarrow> string \<Rightarrow> KitFile" where
  "attachLicense kitfile detectedLicenseType =
     (if kf_Model kitfile \<noteq> None \<and> detectedLicenseType \<noteq> [] then
        kitfile\<lparr>kf_Model :=
          map_option (\<lambda>m. m\<lparr>model_License := detectedLicenseType\<rparr>) (kf_Model kitfile)\<rparr>
      else if length (kf_DataSets kitfile) = 1 then
        kitfile\<lparr>kf_DataSets :=
          (kf_DataSets kitfile)[0 :=
            (kf_DataSets kitfile ! 0)\<lparr>dataset_License := detectedLicenseType\<rparr>]\<rparr>
      else if length (kf_Code kitfile) = 1 then
        kitfile\<lparr>kf_Code :=
          (kf_Code kitfile)[0 := (kf_Code kitfile ! 0)\<lparr>code_License := detectedLicenseType\<rparr>]\<rparr>
      else
        kitfile\<lparr>kf_Package := (kf_Package kitfile)\<lparr>pkg_License := detectedLicenseType\<rparr>\<rparr>)"

definition initialKitfile :: "Package option \<Rightarrow> KitFile" where
  "initialKitfile packageOpt =
     \<lparr>ManifestVersion = ''1.0.0'',
      kf_Package = (case packageOpt of None \<Rightarrow> emptyPackage | Some p \<Rightarrow> p),
      kf_Model = None, kf_Code = [], kf_DataSets = [], kf_Docs = []\<rparr>"

definition initialState :: "Package option \<Rightarrow> genState" where
  "initialState packageOpt =
     \<lparr>st_kitfile = initialKitfile packageOpt,
      st_includeCatchallSection = False,
      st_unprocessedDirPaths = [],
      st_modelFiles = [],
      st_metadataPaths = [],
      st_detectedLicenseType = []\<rparr>"

definition GenerateKitfile :: "env \<Rightarrow> string \<Rightarrow> Package option \<Rightarrow> error + KitFile" where
  "GenerateKitfile e baseDir packageOpt =
     (case ReadDir e baseDir of
        Inl err \<Rightarrow> Inl (ErrorReadingDirectory err)
      | Inr ds \<Rightarrow>
          let st = rootLoop e baseDir ds (initialState packageOpt) in
          (case addModelAndMetadata e (st_kitfile st) baseDir
                  (st_modelFiles st) (st_metadataPaths st) of
             Inl err \<Rightarrow> Inl err
           | Inr kitfile \<Rightarrow>
               Inr (attachLicense
                      (addCodeLayers kitfile (st_includeCatchallSection st)
                         (st_unprocessedDirPaths st))
                      (st_detectedLicenseType st))))"

subsection \<open>A concrete platform for examples\<close>

text \<open>
  A file system given by tables: the entries of each directory, the size of each file,
  the text of each file. Paths are joined with a slash, names are lowered on ASCII
  letters, the manifest's own names are \<^verbatim>\<open>Kitfile\<close>, \<^verbatim>\<open>kitfile\<close> and \<^verbatim>\<open>.kitfile\<close>, and the
  license matcher is a table from a text to the identifiers it matches.
\<close>

definition asciiToLower :: "string \<Rightarrow> string" where
  "asciiToLower s =
     map (\<lambda>c. if 65 \<le> (of_char c :: nat) \<and> (of_char c :: nat) \<le> 90
              then char_of ((of_char c :: nat) + 32) else c) s"

definition exampleEnv ::
  "(string \<times> DirEntry list) list \<Rightarrow> (string \<times> 64 word) list \<Rightarrow> (string \<times> string) list
     \<Rightarrow> (string \<times> string list) list \<Rightarrow> env" where
  "exampleEnv dirs sizes texts licenses =
     \<lparr>ReadDir = (\<lambda>p. case map_of dirs p of
                        None \<Rightarrow> Inl ''no such file or directory''
                      | Some entries \<Rightarrow> Inr entries),
      Stat = (\<lambda>p. case map_of sizes p of
                     None \<Rightarrow> Inl ''no such file or directory''
                   | Some w \<Rightarrow> Inr w),
      ReadFile = (\<lambda>p. case map_of texts p of
                         None \<Rightarrow> Inl ''no such file or directory''
                       | Some t \<Rightarrow> Inr t),
      Scan = (\<lambda>t. case map_of licenses t of None \<Rightarrow> [] | Some ids \<Rightarrow> ids),
      IsDefaultKitfileName = (\<lambda>n. n = ''Kitfile'' \<or> n = ''kitfile'' \<or> n = ''.kitfile''),
      Join = (\<lambda>a b. a @ ''/'' @ b),
      ToLower = asciiToLower\<rparr>"

text \<open>Six model files under \<^verbatim>\<open>root\<close>, of the sizes 100, 100, 310 and 100, 110, 120.\<close>

definition sizesEnv :: env where
  "sizesEnv = exampleEnv []
     [(''root/a.bin'', 100), (''root/b.bin'', 100), (''root/c.bin'', 310),
      (''root/x.bin'', 100), (''root/y.bin'', 110), (''root/z.bin'', 120)] [] []"

text \<open>
  A root with three model files, listed by name: one of 5 bytes and two sparse files of
  \<open>2 ^ 62\<close> bytes each, whose sizes add up to more than a 64-bit integer holds.
\<close>

definition overflowEntries :: "DirEntry list" where
  "overflowEntries = [DirEntry ''a.bin'' False, DirEntry ''b.bin'' False, DirEntry ''c.bin'' False]"

definition overflowEnv :: env where
  "overflowEnv = exampleEnv [(''big'', overflowEntries)]
     [(''big/a.bin'', 5), (''big/b.bin'', 4611686018427387904),
      (''big/c.bin'', 4611686018427387904)] [] []"

definition overflowManifest :: KitFile where
  "overflowManifest =
     \<lparr>ManifestVersion = ''1.0.0'',
      kf_Package = emptyPackage,
      kf_Model = Some
        \<lparr>model_Path = ''b.bin'', model_Name = ''b'', model_License = [],
         model_Parts = [\<lparr>part_Path = ''a.bin''\<rparr>, \<lparr>part_Path = ''c.bin''\<rparr>]\<rparr>,
      kf_Code = [],
      kf_DataSets = [],
      kf_Docs = []\<rparr>"

text \<open>
  A project directory: a manifest, a readme, a license, a directory of model files, one
  of datasets, one of mixed contents, one of scripts, a source directory and a metadata
  file.
\<close>

definition projectEnv :: env where
  "projectEnv = exampleEnv
     [(''proj'',
       [DirEntry ''Kitfile'' False, DirEntry ''README.md'' False, DirEntry ''LICENSE'' False,
        DirEntry ''weights'' True, DirEntry ''data'' True, DirEntry ''mixed'' True,
        DirEntry ''scripts'' True, DirEntry ''src'' True, DirEntry ''tokenizer.json'' False]),
      (''proj/weights'',
       [DirEntry ''model.safetensors'' False, DirEntry ''adapter.bin'' False,
        DirEntry ''config.json'' False]),
      (''proj/data'', [DirEntry ''train.csv'' False, DirEntry ''test.csv'' False]),
      (''proj/mixed'', [DirEntry ''draft.pt'' False, DirEntry ''notes.md'' False]),
      (''proj/scripts'', [DirEntry ''run.py'' False])]
     [(''proj/weights/model.safetensors'', 4000), (''proj/weights/adapter.bin'', 100),
      (''proj/weights/config.json'', 10), (''proj/mixed/draft.pt'', 50)]
     [(''proj/LICENSE'', ''MIT License'')]
     [(''MIT License'', [''MIT''])]"

definition projectEntries :: "DirEntry list" where
  "projectEntries =
     [DirEntry ''Kitfile'' False, DirEntry ''README.md'' False, DirEntry ''LICENSE'' False,
      DirEntry ''weights'' True, DirEntry ''data'' True, DirEntry ''mixed'' True,
      DirEntry ''scripts'' True, DirEntry ''src'' True, DirEntry ''tokenizer.json'' False]"

text \<open>The manifest generated for it.\<close>

definition projectManifest :: KitFile where
  "projectManifest =
     \<lparr>ManifestVersion = ''1.0.0'',
      kf_Package = emptyPackage,
      kf_Model = Some
        \<lparr>model_Path = ''weights/model.safetensors'',
         model_Name = ''weights/model'',
         model_License = ''MIT'',
         model_Parts =
           [\<lparr>part_Path = ''weights/adapter.bin''\<rparr>, \<lparr>part_Path = ''weights/config.json''\<rparr>,
            \<lparr>part_Path = ''mixed/draft.pt''\<rparr>, \<lparr>part_Path = ''tokenizer.json''\<rparr>]\<rparr>,
      kf_Code =
        [\<lparr>code_Path = ''src'', code_License = []\<rparr>,
         \<lparr>code_Path = ''mixed'', code_License = []\<rparr>,
         \<lparr>code_Path = ''scripts'', code_License = []\<rparr>],
      kf_DataSets = [\<lparr>dataset_Path = ''data'', dataset_License = []\<rparr>],
      kf_Docs =
        [\<lparr>docs_Path = ''README.md'', docs_Description = ''Readme file''\<rparr>,
         \<lparr>docs_Path = ''LICENSE'', docs_Description = ''License file''\<rparr>]\<rparr>"

text \<open>A root with a dataset and two metadata files, and no model.\<close>

definition metadataEntries :: "DirEntry list" where
  "metadataEntries =
     [DirEntry ''data.csv'' False, DirEntry ''config.json'' False, DirEntry ''labels.txt'' False]"

definition metadataEnv :: env where
  "metadataEnv = exampleEnv [(''meta'', metadataEntries)] [] [] []"

definition metadataManifest :: KitFile where
  "metadataManifest =
     \<lparr>ManifestVersion = ''1.0.0'',
      kf_Package = emptyPackage,
      kf_Model = None,
      kf_Code = [],
      kf_DataSets =
        [\<lparr>dataset_Path = ''data.csv'', dataset_License = []\<rparr>,
         \<lparr>dataset_Path = ''config.json'', dataset_License = []\<rparr>,
         \<lparr>dataset_Path = ''labels.txt'', dataset_License = []\<rparr>],
      kf_Docs = []\<rparr>"

text \<open>A root with a readme and a license of one known text, and nothing else.\<close>

definition licenseEntries :: "DirEntry list" where
  "licenseEntries = [DirEntry ''LICENSE'' False, DirEntry ''Readme.md'' False]"

definition licenseEnv :: env where
  "licenseEnv = exampleEnv [(''lic'', licenseEntries)] []
     [(''lic/LICENSE'', ''Apache License'')] [(''Apache License'', [''Apache-2.0''])]"

definition licenseManifest :: KitFile where
  "licenseManifest =
     \<lparr>ManifestVersion = ''1.0.0'',
      kf_Package = \<lparr>pkg_Name = [], pkg_Description = [], pkg_License = ''Apache-2.0''\<rparr>,
      kf_Model = None,
      kf_Code = [],
      kf_DataSets = [],
      kf_Docs =
        [\<lparr>docs_Path = ''LICENSE'', docs_Description = ''License file''\<rparr>,
         \<lparr>docs_Path = ''Readme.md'', docs_Description = ''Readme file''\<rparr>]\<rparr>"

text \<open>
  A root with a directory that cannot be read, a directory of mixed contents and a
  license file that cannot be read; and a root with two model files, one of which cannot
  be examined.
\<close>

definition brokenEntries :: "DirEntry list" where
  "brokenEntries =
     [DirEntry ''locked'' True, DirEntry ''mixed'' True, DirEntry ''LICENSE'' False]"

definition brokenEnv :: env where
  "brokenEnv = exampleEnv
     [(''broken'', brokenEntries),
      (''broken/mixed'', [DirEntry ''draft.pt'' False, DirEntry ''notes.md'' False]),
      (''gone'', [DirEntry ''a.bin'' False, DirEntry ''b.bin'' False])]
     [(''gone/a.bin'', 100)] [] []"

definition brokenManifest :: KitFile where
  "brokenManifest =
     \<lparr>ManifestVersion = ''1.0.0'',
      kf_Package = emptyPackage,
      kf_Model = Some
        \<lparr>model_Path = ''mixed/draft.pt'', model_Name = ''draft'', model_License = [],
         model_Parts = []\<rparr>,
      kf_Code =
        [\<lparr>code_Path = ''locked'', code_License = []\<rparr>,
         \<lparr>code_Path = ''mixed'', code_License = []\<rparr>],
      kf_DataSets = [],
      kf_Docs = [\<lparr>docs_Path = ''LICENSE'', docs_Description = ''License file''\<rparr>]\<rparr>"

text \<open>A root with two model files of the same size.\<close>

definition twoModelsEnv :: env where
  "twoModelsEnv = exampleEnv
     [(''root'', [DirEntry ''a.bin'' False, DirEntry ''b.bin'' False])]
     [(''root/a.bin'', 100), (''root/b.bin'', 100)] [] []"

definition twoModelsManifest :: KitFile where
  "twoModelsManifest =
     \<lparr>ManifestVersion = ''1.0.0'',
      kf_Package = emptyPackage,
      kf_Model = Some
        \<lparr>model_Path = ''a.bin'', model_Name = [], model_License = [],
         model_Parts = [\<lparr>part_Path = ''b.bin''\<rparr>]\<rparr>,
      kf_Code = [],
      kf_DataSets = [],
      kf_Docs = []\<rparr>"

text \<open>A root with seven subdirectories of scripts.\<close>

definition sevenDirs :: "DirEntry list" where
  "sevenDirs =
     [DirEntry ''a1'' True, DirEntry ''a2'' True, DirEntry ''a3'' True, DirEntry ''a4'' True,
      DirEntry ''a5'' True, DirEntry ''a6'' True, DirEntry ''a7'' True]"

definition sevenDirsEnv :: env where
  "sevenDirsEnv = exampleEnv
     [(''root'', sevenDirs),
      (''root/a1'', [DirEntry ''run.py'' False]), (''root/a2'', [DirEntry ''run.py'' False]),
      (''root/a3'', [DirEntry ''run.py'' False]), (''root/a4'', [DirEntry ''run.py'' False]),
      (''root/a5'', [DirEntry ''run.py'' False]), (''root/a6'', [DirEntry ''run.py'' False]),
      (''root/a7'', [DirEntry ''run.py'' False])]
     [] [] []"

subsection \<open>The election of the primary model, in the specification's words\<close>

text \<open>
  The candidates are paths with their sizes. The mean is the integer mean; the primary
  is the first candidate of the largest size when that size is above the mean plus half
  the mean, and the first candidate otherwise.
\<close>

definition candidateSizes :: "(string \<times> 64 word) list \<Rightarrow> int list" where
  "candidateSizes cs = map (\<lambda>c. sint (snd c)) cs"

definition statsAre :: "env \<Rightarrow> string \<Rightarrow> (string \<times> 64 word) list \<Rightarrow> bool" where
  "statsAre e baseDir cs \<longleftrightarrow> list_all (\<lambda>(p, w). Stat e (Join e baseDir p) = Inr w) cs"

definition meanSize :: "int list \<Rightarrow> int" where
  "meanSize sizes = sum_list sizes div int (length sizes)"

definition firstLargest :: "int list \<Rightarrow> nat" where
  "firstLargest sizes = length (takeWhile (\<lambda>s. s \<noteq> Max (set sizes)) sizes)"

definition primaryIndex :: "int list \<Rightarrow> nat" where
  "primaryIndex sizes =
     (if Max (set sizes) > meanSize sizes + meanSize sizes div 2 then firstLargest sizes else 0)"

text \<open>What a call of \<open>addModelToKitfile\<close> elects: the model's path and the paths of its parts.\<close>

definition modelElection :: "error + KitFile \<Rightarrow> (string \<times> string list) option" where
  "modelElection r =
     (case r of
        Inl err \<Rightarrow> None
      | Inr kitfile \<Rightarrow>
          map_option (\<lambda>m. (model_Path m, map part_Path (model_Parts m))) (kf_Model kitfile))"

text \<open>The largest size the first loop of \<open>addModelToKitfile\<close> holds, which starts at 0.\<close>

definition largest0 :: "int list \<Rightarrow> int" where
  "largest0 sizes = Max (set (0 # sizes))"

subsection \<open>The summary of a directory, in the specification's words\<close>

text \<open>
  The category of a child of the directory (a nested directory is Unknown), the paths of
  the children of a category, and the active categories: those other than Metadata that
  have a member.
\<close>

definition entryType :: "DirEntry \<Rightarrow> fileType" where
  "entryType entry = (if IsDir entry then fileTypeUnknown else determineFileType (Name entry))"

definition pathsOfType :: "env \<Rightarrow> string \<Rightarrow> DirEntry list \<Rightarrow> fileType \<Rightarrow> string list" where
  "pathsOfType e dirPath entries t =
     map (\<lambda>entry. Join e dirPath (Name entry)) (filter (\<lambda>entry. entryType entry = t) entries)"

definition activeTypes :: "DirEntry list \<Rightarrow> fileType list" where
  "activeTypes entries =
     filter (\<lambda>t. t \<noteq> fileTypeMetadata \<and> (\<exists>entry\<in>set entries. entryType entry = t))
       [fileTypeModel, fileTypeDataset, fileTypeCode, fileTypeDocs, fileTypeMetadata,
        fileTypeUnknown]"

subsection \<open>The pass over the root's entries, in the specification's words\<close>

text \<open>
  The kinds of root entries: the manifest's own file is skipped; a subdirectory is
  summarized; a file passes the readme test, then the license test, and is a plain file
  when it reaches the suffix classifier.
\<close>

definition subdirectory :: "env \<Rightarrow> DirEntry \<Rightarrow> bool" where
  "subdirectory e d \<longleftrightarrow> \<not> IsDefaultKitfileName e (Name d) \<and> IsDir d"

definition licenseFile :: "env \<Rightarrow> DirEntry \<Rightarrow> bool" where
  "licenseFile e d \<longleftrightarrow>
     \<not> IsDefaultKitfileName e (Name d) \<and> \<not> IsDir d
     \<and> \<not> HasPrefix (ToLower e (Name d)) ''readme''
     \<and> HasPrefix (ToLower e (Name d)) ''license''"

definition plainFile :: "env \<Rightarrow> DirEntry \<Rightarrow> bool" where
  "plainFile e d \<longleftrightarrow>
     \<not> IsDefaultKitfileName e (Name d) \<and> \<not> IsDir d
     \<and> \<not> HasPrefix (ToLower e (Name d)) ''readme''
     \<and> \<not> HasPrefix (ToLower e (Name d)) ''license''"

text \<open>The summary of a subdirectory of the root, taken on the empty manifest.\<close>

definition dirSummary :: "env \<Rightarrow> string \<Rightarrow> DirEntry \<Rightarrow> KitFile \<times> string list \<times> error option" where
  "dirSummary e baseDir d = addDirToKitfile e (initialKitfile None) baseDir (Name d) d"

text \<open>
  The model candidates in the order of discovery: a plain file of the Model type, and
  what the summary of a subdirectory returns.
\<close>

definition entryCandidates :: "env \<Rightarrow> string \<Rightarrow> DirEntry \<Rightarrow> string list" where
  "entryCandidates e baseDir d =
     (if subdirectory e d then fst (snd (dirSummary e baseDir d))
      else if plainFile e d \<and> determineFileType (Name d) = fileTypeModel then [Name d]
      else [])"

definition modelCandidates :: "env \<Rightarrow> string \<Rightarrow> DirEntry list \<Rightarrow> string list" where
  "modelCandidates e baseDir ds = concat (map (entryCandidates e baseDir) ds)"

text \<open>The pending metadata files: the plain files of the Metadata type.\<close>

definition metadataFiles :: "env \<Rightarrow> DirEntry list \<Rightarrow> string list" where
  "metadataFiles e ds =
     map Name (filter (\<lambda>d. plainFile e d \<and> determineFileType (Name d) = fileTypeMetadata) ds)"

text \<open>The catch-all flag: some plain file is of the Code or of the Unknown type.\<close>

definition catchAllFlag :: "env \<Rightarrow> DirEntry list \<Rightarrow> bool" where
  "catchAllFlag e ds \<longleftrightarrow>
     list_ex (\<lambda>d. plainFile e d \<and>
        (determineFileType (Name d) = fileTypeCode \<or> determineFileType (Name d) = fileTypeUnknown))
       ds"

text \<open>The unprocessed directories: the subdirectories whose summary fails.\<close>

definition unprocessedDirs :: "env \<Rightarrow> string \<Rightarrow> DirEntry list \<Rightarrow> string list" where
  "unprocessedDirs e baseDir ds =
     map Name (filter (\<lambda>d. subdirectory e d \<and> snd (snd (dirSummary e baseDir d)) \<noteq> None) ds)"

text \<open>The subdirectories with a name that stands for code.\<close>

definition codeDirs :: "env \<Rightarrow> DirEntry list \<Rightarrow> string list" where
  "codeDirs e ds =
     map Name (filter (\<lambda>d. subdirectory e d \<and>
        (Name d = ''src'' \<or> Name d = ''pkg'' \<or> Name d = ''lib'' \<or> Name d = ''build'')) ds)"

text \<open>
  The datasets of the pass: a plain file of the Dataset type, and a subdirectory that
  its summary appends to the datasets.
\<close>

definition entryDatasets :: "env \<Rightarrow> string \<Rightarrow> DirEntry \<Rightarrow> string list" where
  "entryDatasets e baseDir d =
     (if subdirectory e d then map dataset_Path (kf_DataSets (fst (dirSummary e baseDir d)))
      else if plainFile e d \<and> determineFileType (Name d) = fileTypeDataset then [Name d]
      else [])"

definition passDatasets :: "env \<Rightarrow> string \<Rightarrow> DirEntry list \<Rightarrow> string list" where
  "passDatasets e baseDir ds = concat (map (entryDatasets e baseDir) ds)"

text \<open>The detected license: what the license matcher gave for the last license file.\<close>

definition detectedLicense :: "env \<Rightarrow> string \<Rightarrow> DirEntry list \<Rightarrow> string" where
  "detectedLicense e baseDir ds =
     fold (\<lambda>d licenseType.
             if licenseFile e d then fst (detectLicense e (Join e baseDir (Name d)))
             else licenseType) ds []"

definition newCode :: "string \<Rightarrow> Code" where
  "newCode path = \<lparr>code_Path = path, code_License = []\<rparr>"

definition newDataSet :: "string \<Rightarrow> DataSet" where
  "newDataSet path = \<lparr>dataset_Path = path, dataset_License = []\<rparr>"

text \<open>What one entry of the root adds to the code section, the unprocessed directories, the
  pending metadata files and the catch-all flag.\<close>

definition entryCode :: "env \<Rightarrow> DirEntry \<Rightarrow> string list" where
  "entryCode e d =
     (if subdirectory e d \<and>
         (Name d = ''src'' \<or> Name d = ''pkg'' \<or> Name d = ''lib'' \<or> Name d = ''build'')
      then [Name d] else [])"

definition entryUnprocessed :: "env \<Rightarrow> string \<Rightarrow> DirEntry \<Rightarrow> string list" where
  "entryUnprocessed e baseDir d =
     (if subdirectory e d \<and> snd (snd (dirSummary e baseDir d)) \<noteq> None then [Name d] else [])"

definition entryMetadata :: "env \<Rightarrow> DirEntry \<Rightarrow> string list" where
  "entryMetadata e d =
     (if plainFile e d \<and> determineFileType (Name d) = fileTypeMetadata then [Name d] else [])"

definition entryCatchAll :: "env \<Rightarrow> DirEntry \<Rightarrow> bool" where
  "entryCatchAll e d \<longleftrightarrow> plainFile e d \<and>
     (determineFileType (Name d) = fileTypeCode \<or> determineFileType (Name d) = fileTypeUnknown)"

subsection \<open>The licenses of a manifest\<close>

definition modelLicense :: "KitFile \<Rightarrow> string" where
  "modelLicense k = (case kf_Model k of None \<Rightarrow> [] | Some m \<Rightarrow> model_License m)"

definition datasetLicenses :: "KitFile \<Rightarrow> string list" where
  "datasetLicenses k = map dataset_License (kf_DataSets k)"

definition codeLicenses :: "KitFile \<Rightarrow> string list" where
  "codeLicenses k = map code_License (kf_Code k)"

definition noLicense :: "string list \<Rightarrow> bool" where
  "noLicense ls \<longleftrightarrow> list_all (\<lambda>l. l = []) ls"

definition packageOf :: "Package option \<Rightarrow> Package" where
  "packageOf packageOpt = (case packageOpt of None \<Rightarrow> emptyPackage | Some p \<Rightarrow> p)"

section \<open>The suffix classifier\<close>

lemma HasSuffix_iff: "HasSuffix s sfx \<longleftrightarrow> suffix sfx s"
proof
  assume "HasSuffix s sfx"
  then have "s = take (length s - length sfx) s @ sfx"
    by (metis HasSuffix_def append_take_drop_id)
  then show "suffix sfx s" by (rule suffixI)
next
  assume "suffix sfx s"
  then obtain p where "s = p @ sfx" by (auto simp: suffix_def)
  then show "HasSuffix s sfx" by (simp add: HasSuffix_def)
qed

lemma anySuffix_iff: "anySuffix query sfxs \<longleftrightarrow> (\<exists>s\<in>set sfxs. suffix s query)"
  by (induction sfxs) (auto simp: HasSuffix_iff)

text \<open>
  Claim C7. The classifier looks a file name up in the tables of model weights, metadata,
  documentation and datasets, in this order, and answers with the first table that holds
  a string the name ends with (byte for byte), or with Unknown when none does. A name
  that ends with a model suffix is therefore a Model, whatever else it matches.
\<close>

theorem determineFileType_precedence:
  "determineFileType filename =
     (if \<exists>s\<in>set modelWeightsSuffixes. suffix s filename then fileTypeModel
      else if \<exists>s\<in>set metadataSuffixes. suffix s filename then fileTypeMetadata
      else if \<exists>s\<in>set docsSuffixes. suffix s filename then fileTypeDocs
      else if \<exists>s\<in>set datasetSuffixes. suffix s filename then fileTypeDataset
      else fileTypeUnknown)"
  unfolding determineFileType_def anySuffix_iff by (rule refl)

section \<open>The model assembler\<close>

lemma candidateSizes_simps:
  "candidateSizes [] = []"
  "candidateSizes (cs @ [(p, w)]) = candidateSizes cs @ [sint w]"
  "length (candidateSizes cs) = length cs"
  by (simp_all add: candidateSizes_def)

lemma candidateSizes_nonneg:
  "\<forall>c\<in>set cs. 0 \<le> sint (snd c) \<Longrightarrow> \<forall>s\<in>set (candidateSizes cs). 0 \<le> s"
  by (auto simp: candidateSizes_def)

lemma wrap64_id: "- (2 ^ 63) \<le> x \<Longrightarrow> x < 2 ^ 63 \<Longrightarrow> wrap64 x = x"
  by (simp add: wrap64_def)

lemma div64_nonneg: "0 \<le> a \<Longrightarrow> a < 2 ^ 63 \<Longrightarrow> 0 < b \<Longrightarrow> div64 a b = a div b"
proof -
  assume a: "0 \<le> a" "a < 2 ^ 63" "0 < b"
  have "sgn a * sgn b * (\<bar>a\<bar> div \<bar>b\<bar>) = a div b"
    using a by (cases "a = 0") (simp_all add: sgn_if)
  moreover have "0 \<le> a div b" using a by (simp add: pos_imp_zdiv_nonneg_iff)
  moreover have "a div b \<le> a" using zdiv_mono2 [of a 1 b] a by simp
  ultimately show ?thesis using a unfolding div64_def by (simp only: wrap64_id)
qed

lemma sizeLoop_append:
  "sizeLoop e baseDir (xs @ ys) st =
     (case sizeLoop e baseDir xs st of Inl err \<Rightarrow> Inl err | Inr st' \<Rightarrow> sizeLoop e baseDir ys st')"
proof (induction xs arbitrary: st)
  case Nil
  show ?case by simp
next
  case (Cons x xs)
  obtain lf ls av where st: "st = (lf, ls, av)" by (cases st) auto
  show ?case unfolding st by (simp add: Cons.IH Let_def split: sum.splits)
qed

lemma largest0_snoc: "largest0 (xs @ [x]) = max (largest0 xs) x"
proof -
  have "set (0 # xs @ [x]) = insert x (set (0 # xs))" by auto
  then have "largest0 (xs @ [x]) = Max (insert x (set (0 # xs)))" by (simp only: largest0_def)
  also have "\<dots> = max x (Max (set (0 # xs)))" by (rule Max_insert) auto
  finally show ?thesis by (simp add: largest0_def max.commute)
qed

lemma largest0_ge: "s \<in> set xs \<Longrightarrow> s \<le> largest0 xs"
  by (simp add: largest0_def)

lemma largest0_nonneg: "0 \<le> largest0 xs"
  by (simp add: largest0_def)

lemma largest0_Max:
  assumes "xs \<noteq> []" and "\<forall>s\<in>set xs. 0 \<le> s"
  shows "largest0 xs = Max (set xs)"
proof -
  have "Max (insert 0 (set xs)) = max 0 (Max (set xs))"
    using assms(1) by (intro Max_insert) auto
  moreover have "0 \<le> Max (set xs)"
    using assms by (metis List.finite_set Max_in set_empty2)
  ultimately show ?thesis by (simp add: largest0_def)
qed

lemma firstLargest_new:
  assumes "\<forall>s\<in>set xs. s < x"
  shows "firstLargest (xs @ [x]) = length xs"
proof -
  have "Max (set (xs @ [x])) = x"
  proof (cases "xs = []")
    case True then show ?thesis by simp
  next
    case False
    have "set (xs @ [x]) = insert x (set xs)" by auto
    then have "Max (set (xs @ [x])) = max x (Max (set xs))"
      using False by (simp only: Max_insert [OF finite_set] set_empty2 [symmetric]) 
    moreover have "Max (set xs) < x" using assms False by simp
    ultimately show ?thesis by simp
  qed
  moreover have "takeWhile (\<lambda>s. s \<noteq> x) (xs @ [x]) = xs"
    using assms by (subst takeWhile_append2) auto
  ultimately show ?thesis by (simp add: firstLargest_def)
qed

lemma firstLargest_old:
  assumes "xs \<noteq> []" and "x \<le> Max (set xs)"
  shows "firstLargest (xs @ [x]) = firstLargest xs \<and> firstLargest xs < length xs"
proof -
  have "set (xs @ [x]) = insert x (set xs)" by auto
  then have "Max (set (xs @ [x])) = max x (Max (set xs))"
    using assms(1) by (simp only: Max_insert [OF finite_set] set_empty2 [symmetric]) 
  then have M: "Max (set (xs @ [x])) = Max (set xs)" using assms(2) by simp
  have mem: "Max (set xs) \<in> set xs" using assms(1) by (intro Max_in) auto
  then have "takeWhile (\<lambda>s. s \<noteq> Max (set xs)) (xs @ [x]) = takeWhile (\<lambda>s. s \<noteq> Max (set xs)) xs"
    by (intro takeWhile_append1 [where x = "Max (set xs)"]) auto
  moreover have "length (takeWhile (\<lambda>s. s \<noteq> Max (set xs)) xs) < length xs"
  proof -
    let ?P = "\<lambda>s. s \<noteq> Max (set xs)"
    have "dropWhile ?P xs \<noteq> []" using mem by (simp add: dropWhile_eq_Nil_conv)
    moreover have "length (takeWhile ?P xs) + length (dropWhile ?P xs) = length xs"
      by (metis length_append takeWhile_dropWhile_id)
    ultimately show ?thesis by (cases "dropWhile ?P xs") auto
  qed
  ultimately show ?thesis unfolding firstLargest_def M by simp
qed

lemma sizeLoop_total:
  assumes "statsAre e baseDir cs"
    and "\<forall>c\<in>set cs. 0 \<le> sint (snd c)"
    and "sum_list (candidateSizes cs) < 2 ^ 63"
  shows "sizeLoop e baseDir (map fst cs) ([], 0, 0) =
     Inr (if largest0 (candidateSizes cs) > 0
          then map fst cs ! firstLargest (candidateSizes cs) else [],
          largest0 (candidateSizes cs),
          sum_list (candidateSizes cs))"
  using assms
proof (induction cs rule: rev_induct)
  case Nil
  show ?case by (simp add: candidateSizes_simps largest0_def)
next
  case (snoc c cs)
  obtain p w where c: "c = (p, w)" by (cases c) auto
  let ?sz = "candidateSizes cs"
  have nn: "\<forall>s\<in>set ?sz. 0 \<le> s" using snoc.prems(2) by (intro candidateSizes_nonneg) auto
  have w0: "0 \<le> sint w" using snoc.prems(2) c by auto
  have sum0: "0 \<le> sum_list ?sz" using nn by (intro sum_list_nonneg) auto
  have sumb: "sum_list ?sz + sint w < 2 ^ 63"
    using snoc.prems(3) c by (simp add: candidateSizes_simps)
  have st: "Stat e (Join e baseDir p) = Inr w" using snoc.prems(1) c by (simp add: statsAre_def)
  have IH: "sizeLoop e baseDir (map fst cs) ([], 0, 0) =
     Inr (if largest0 ?sz > 0 then map fst cs ! firstLargest ?sz else [],
          largest0 ?sz, sum_list ?sz)"
    using snoc.IH snoc.prems sum0 w0 sumb c by (simp add: statsAre_def)
  have wr: "wrap64 (sum_list ?sz + sint w) = sum_list ?sz + sint w"
    using sum0 w0 sumb by (intro wrap64_id) auto
  have sz': "candidateSizes (cs @ [c]) = ?sz @ [sint w]" by (simp add: c candidateSizes_simps)
  have step: "sizeLoop e baseDir (map fst (cs @ [c])) ([], 0, 0) =
      Inr (if sint w > largest0 ?sz then p
           else if largest0 ?sz > 0 then map fst cs ! firstLargest ?sz else [],
           if sint w > largest0 ?sz then sint w else largest0 ?sz,
           sum_list ?sz + sint w)"
    unfolding map_append sizeLoop_append IH using st c wr by (simp add: Let_def)
  show ?case
  proof (cases "sint w > largest0 ?sz")
    case True
    have "\<forall>s\<in>set ?sz. s < sint w" using True largest0_ge by fastforce
    then have fl: "firstLargest (?sz @ [sint w]) = length cs"
      by (simp add: firstLargest_new candidateSizes_simps)
    have pos: "0 < sint w" using True largest0_nonneg [of ?sz] by linarith
    show ?thesis unfolding step sz' largest0_snoc fl using True pos c
      by (simp add: nth_append)
  next
    case False
    show ?thesis
    proof (cases "largest0 ?sz > 0")
      case Mpos: True
      then have ne: "?sz \<noteq> []" by (auto simp: largest0_def)
      have "sint w \<le> Max (set ?sz)" using False largest0_Max [OF ne nn] by simp
      from firstLargest_old [OF ne this]
      have fl: "firstLargest (?sz @ [sint w]) = firstLargest ?sz"
        and lt: "firstLargest ?sz < length cs" by (simp_all add: candidateSizes_simps)
      show ?thesis unfolding step sz' largest0_snoc fl using False Mpos lt
        by (simp add: nth_append)
    next
      case Mz: False
      show ?thesis unfolding step sz' largest0_snoc using False Mz by simp
    qed
  qed
qed

lemma filter_neq_nth:
  assumes "distinct xs" and "i < length xs"
  shows "filter (\<lambda>x. x \<noteq> xs ! i) xs = take i xs @ drop (Suc i) xs"
proof -
  have xs: "xs = take i xs @ xs ! i # drop (Suc i) xs"
    using assms(2) by (rule id_take_nth_drop)
  have d: "distinct (take i xs @ xs ! i # drop (Suc i) xs)" using assms(1) xs by simp
  have a: "\<forall>x\<in>set (take i xs). x \<noteq> xs ! i" using d by auto
  have b: "\<forall>x\<in>set (drop (Suc i) xs). x \<noteq> xs ! i" using d by auto
  have "filter (\<lambda>x. x \<noteq> xs ! i) (take i xs @ xs ! i # drop (Suc i) xs)
      = take i xs @ drop (Suc i) xs"
    using a b by (simp add: filter_id_conv)
  then show ?thesis using xs by simp
qed

lemma firstLargest_less:
  assumes "xs \<noteq> []"
  shows "firstLargest xs < length xs"
proof -
  let ?P = "\<lambda>s. s \<noteq> Max (set xs)"
  have "Max (set xs) \<in> set xs" using assms by (intro Max_in) auto
  then have "dropWhile ?P xs \<noteq> []" by (simp add: dropWhile_eq_Nil_conv)
  moreover have "length (takeWhile ?P xs) + length (dropWhile ?P xs) = length xs"
    by (metis length_append takeWhile_dropWhile_id)
  ultimately show ?thesis unfolding firstLargest_def by (cases "dropWhile ?P xs") auto
qed

text \<open>
  The election while the 64-bit sum of the sizes does not wrap: for two or more
  candidates with distinct paths, whose sizes \<^verbatim>\<open>os.Stat\<close> gives, none negative and of a sum
  below \<open>2 ^ 63\<close>, the model assembler elects the candidate at \<open>primaryIndex\<close> and makes
  every other candidate a part, in the order of discovery.
\<close>

lemma addModelToKitfile_elects:
  assumes len: "2 \<le> length cs"
    and dist: "distinct (map fst cs)"
    and stats: "statsAre e baseDir cs"
    and nonneg: "\<forall>c\<in>set cs. 0 \<le> sint (snd c)"
    and bound: "sum_list (candidateSizes cs) < 2 ^ 63"
  shows "modelElection (addModelToKitfile e kitfile baseDir (map fst cs)) =
     Some (map fst cs ! primaryIndex (candidateSizes cs),
           take (primaryIndex (candidateSizes cs)) (map fst cs) @
           drop (Suc (primaryIndex (candidateSizes cs))) (map fst cs))"
proof -
  let ?ps = "map fst cs"
  let ?sz = "candidateSizes cs"
  obtain p1 p2 ps where ps: "?ps = p1 # p2 # ps"
    using len by (cases ?ps; cases "tl ?ps") (auto simp: Suc_le_eq)
  have ne: "?sz \<noteq> []" using len by (auto simp: candidateSizes_def)
  have nn: "\<forall>s\<in>set ?sz. 0 \<le> s" using nonneg by (rule candidateSizes_nonneg)
  have sum0: "0 \<le> sum_list ?sz" using nn by (intro sum_list_nonneg) auto
  have lz: "largest0 ?sz = Max (set ?sz)" using ne nn by (rule largest0_Max)
  have n2: "2 \<le> int (length ?ps)" using len by simp
  have "div64 (sum_list ?sz) (int (length ?ps)) = sum_list ?sz div int (length ?ps)"
    using sum0 bound n2 by (intro div64_nonneg) auto
  then have avg: "div64 (sum_list ?sz) (int (length ?ps)) = meanSize ?sz"
    by (simp add: meanSize_def candidateSizes_simps)
  have "0 \<le> sum_list ?sz div int (length ?ps)"
    using sum0 n2 by (subst pos_imp_zdiv_nonneg_iff) auto
  then have m0: "0 \<le> meanSize ?sz"
    by (simp add: meanSize_def candidateSizes_simps)
  have "meanSize ?sz \<le> sum_list ?sz div 2"
    unfolding meanSize_def using zdiv_mono2 [of "sum_list ?sz" 2 "int (length ?sz)"] sum0 n2
    by (simp add: candidateSizes_simps)
  then have mb: "meanSize ?sz < 2 ^ 62" using bound by simp
  have half: "div64 (meanSize ?sz) 2 = meanSize ?sz div 2"
    using m0 mb by (intro div64_nonneg) auto
  have thr: "wrap64 (meanSize ?sz + meanSize ?sz div 2) = meanSize ?sz + meanSize ?sz div 2"
    using m0 mb by (intro wrap64_id) auto
  have loop: "sizeLoop e baseDir (p1 # p2 # ps) ([], 0, 0) =
     Inr (if Max (set ?sz) > 0 then ?ps ! firstLargest ?sz else [], Max (set ?sz), sum_list ?sz)"
    using sizeLoop_total [OF stats nonneg bound] unfolding lz ps by simp
  show ?thesis
  proof (cases "Max (set ?sz) > meanSize ?sz + meanSize ?sz div 2")
    case True
    then have pos: "0 < Max (set ?sz)" using m0 by linarith
    have pi: "primaryIndex ?sz = firstLargest ?sz" using True by (simp add: primaryIndex_def)
    have lt: "firstLargest ?sz < length ?ps"
      using firstLargest_less [OF ne] by (simp add: candidateSizes_simps)
    have flt: "filter (\<lambda>x. x \<noteq> ?ps ! firstLargest ?sz) ?ps =
        take (firstLargest ?sz) ?ps @ drop (Suc (firstLargest ?sz)) ?ps"
      using dist lt by (rule filter_neq_nth)
    have "addModelToKitfile e kitfile baseDir ?ps =
       Inr (kitfile\<lparr>kf_Model := Some \<lparr>model_Path = ?ps ! firstLargest ?sz,
              model_Name = TrimSuffix (?ps ! firstLargest ?sz) (Ext (?ps ! firstLargest ?sz)),
              model_License = [],
              model_Parts = map (\<lambda>modelFile. \<lparr>part_Path = modelFile\<rparr>)
                (filter (\<lambda>x. x \<noteq> ?ps ! firstLargest ?sz) ?ps)\<rparr>\<rparr>)"
      unfolding addModelToKitfile_def ps list.case loop
      using True pos avg half thr unfolding ps by (simp add: Let_def)
    then show ?thesis unfolding pi flt by (simp add: modelElection_def comp_def)
  next
    case False
    then have pi: "primaryIndex ?sz = 0" by (simp add: primaryIndex_def)
    have "addModelToKitfile e kitfile baseDir ?ps =
       Inr (kitfile\<lparr>kf_Model := Some \<lparr>model_Path = p1, model_Name = [], model_License = [],
              model_Parts = map (\<lambda>modelFile. \<lparr>part_Path = modelFile\<rparr>) (p2 # ps)\<rparr>\<rparr>)"
      unfolding addModelToKitfile_def ps list.case loop
      using False avg half thr unfolding ps by (simp add: Let_def)
    then show ?thesis unfolding pi using ps by (simp add: modelElection_def comp_def)
  qed
qed

lemma primaryIndex_examples:
  "primaryIndex [100, 100, 310] = 2" "primaryIndex [100, 110, 120] = 0"
  by (simp_all add: primaryIndex_def meanSize_def firstLargest_def)

lemma addModelToKitfile_elects_examples:
  "modelElection (addModelToKitfile sizesEnv (initialKitfile None) ''root''
       [''a.bin'', ''b.bin'', ''c.bin''])
     = Some (''c.bin'', [''a.bin'', ''b.bin''])
   \<and> modelElection (addModelToKitfile sizesEnv (initialKitfile None) ''root''
       [''x.bin'', ''y.bin'', ''z.bin''])
     = Some (''x.bin'', [''y.bin'', ''z.bin''])"
  using
    addModelToKitfile_elects [of "[(''a.bin'', 100), (''b.bin'', 100), (''c.bin'', 310)]"
      sizesEnv "''root''" "initialKitfile None"]
    addModelToKitfile_elects [of "[(''x.bin'', 100), (''y.bin'', 110), (''z.bin'', 120)]"
      sizesEnv "''root''" "initialKitfile None"]
  by (simp add: statsAre_def sizesEnv_def exampleEnv_def candidateSizes_def
      primaryIndex_examples)

lemma overflow_rule:
  "candidateSizes [(''a.bin'', 5), (''b.bin'', 4611686018427387904),
      (''c.bin'', 4611686018427387904)] = [5, 4611686018427387904, 4611686018427387904]"
  "sum_list [5, 4611686018427387904, 4611686018427387904 :: int] = 2 ^ 63 + 5"
  "meanSize [5, 4611686018427387904, 4611686018427387904] = 3074457345618258604"
  "primaryIndex [5, 4611686018427387904, 4611686018427387904] = 0"
  by (simp_all add: candidateSizes_def primaryIndex_def meanSize_def firstLargest_def)

lemma overflow_run:
  "ReadDir overflowEnv ''big'' = Inr overflowEntries"
  "GenerateKitfile overflowEnv ''big'' None = Inr overflowManifest"
  "modelElection (addModelToKitfile overflowEnv (initialKitfile None) ''big''
       [''a.bin'', ''b.bin'', ''c.bin'']) = Some (''b.bin'', [''a.bin'', ''c.bin''])"
  by code_simp+

text \<open>
  Claim C1 says that for every list of two or more candidates the largest is elected
  only when its size is above the integer mean plus half of it, and the first candidate
  otherwise. With the sizes 5, \<open>2 ^ 62\<close> and \<open>2 ^ 62\<close> the mean is 3074457345618258604 and
  the largest size is not above the mean plus half of it, so the rule elects the first
  file, \<^verbatim>\<open>a.bin\<close>. The 64-bit sum of the sizes wraps to a negative number, the threshold
  the code computes is negative, and the code elects \<^verbatim>\<open>b.bin\<close> with \<^verbatim>\<open>a.bin\<close> as a part.
\<close>

theorem addModelToKitfile_overflow:
  "GenerateKitfile overflowEnv ''big'' None = Inr overflowManifest
   \<and> modelElection (Inr overflowManifest) = Some (''b.bin'', [''a.bin'', ''c.bin''])
   \<and> modelElection (addModelToKitfile overflowEnv (initialKitfile None) ''big''
         [''a.bin'', ''b.bin'', ''c.bin'']) = Some (''b.bin'', [''a.bin'', ''c.bin''])
   \<and> primaryIndex (candidateSizes [(''a.bin'', 5), (''b.bin'', 4611686018427387904),
         (''c.bin'', 4611686018427387904)]) = 0
   \<and> modelElection (addModelToKitfile overflowEnv (initialKitfile None) ''big''
         [''a.bin'', ''b.bin'', ''c.bin'']) \<noteq>
       Some ([''a.bin'', ''b.bin'', ''c.bin''] ! 0,
             take 0 [''a.bin'', ''b.bin'', ''c.bin''] @
             drop (Suc 0) [''a.bin'', ''b.bin'', ''c.bin''])"
proof -
  have "modelElection (Inr overflowManifest) = Some (''b.bin'', [''a.bin'', ''c.bin''])"
    by (simp add: modelElection_def overflowManifest_def)
  then show ?thesis by (simp add: overflow_run overflow_rule)
qed

section \<open>The directory summarizer\<close>

lemma determineFileType_not_Code: "determineFileType filename \<noteq> fileTypeCode"
  by (simp add: determineFileType_def)

lemma entryType_not_Code: "entryType entry \<noteq> fileTypeCode"
  by (simp add: entryType_def determineFileType_not_Code)

lemma fileType_of_int: "fileType_of (fileType_int t) = t"
  by (cases t) (simp_all add: fileType_of_def)

lemma classifyEntries_buckets:
  assumes "length dc = 6"
  shows "classifyEntries e dirPath entries (mf, dc) =
     (mf @ pathsOfType e dirPath entries fileTypeModel,
      map (\<lambda>i. dc ! i @ pathsOfType e dirPath entries (fileType_of i)) [0..<6])"
  using assms
proof (induction entries arbitrary: mf dc)
  case Nil
  have "map ((!) dc) [0..<length dc] = dc" by (rule map_nth)
  then show ?case using Nil by (simp add: pathsOfType_def)
next
  case (Cons entry entries)
  let ?t = "entryType entry"
  let ?rel = "Join e dirPath (Name entry)"
  let ?dc = "dc[fileType_int ?t := dc ! fileType_int ?t @ [?rel]]"
  have len: "length ?dc = 6" using Cons.prems by simp
  have step: "classifyEntries e dirPath (entry # entries) (mf, dc) =
      classifyEntries e dirPath entries
        (if ?t = fileTypeModel then mf @ [?rel] else mf, ?dc)"
    by (auto simp: entryType_def Let_def)
  have b: "\<And>i. i < 6 \<Longrightarrow> ?dc ! i @ pathsOfType e dirPath entries (fileType_of i) =
      dc ! i @ pathsOfType e dirPath (entry # entries) (fileType_of i)"
  proof -
    fix i :: nat assume i: "i < 6"
    show "?dc ! i @ pathsOfType e dirPath entries (fileType_of i) =
      dc ! i @ pathsOfType e dirPath (entry # entries) (fileType_of i)"
    proof (cases "i = fileType_int ?t")
      case True
      then show ?thesis using Cons.prems i by (simp add: pathsOfType_def fileType_of_int)
    next
      case False
      then have "fileType_of i \<noteq> ?t" using i
        by (cases ?t) (auto simp: fileType_of_def)
      then show ?thesis using False by (auto simp: pathsOfType_def)
    qed
  qed
  show ?case unfolding step Cons.IH [OF len]
    using b by (auto simp: pathsOfType_def)
qed


lemma upt_6: "[0..<6] = [0, 1, 2, 3, 4, 5::nat]"
  by code_simp

lemma pathsOfType_Nil_iff:
  "pathsOfType e dirPath entries t = [] \<longleftrightarrow> \<not> (\<exists>entry\<in>set entries. entryType entry = t)"
  by (auto simp: pathsOfType_def filter_empty_conv)

lemma pathsOfType_Code: "pathsOfType e dirPath entries fileTypeCode = []"
  by (simp add: pathsOfType_Nil_iff entryType_not_Code)

lemma classifyEntries_initial:
  "classifyEntries e dirPath entries ([], replicate (fileType_int fileTypeUnknown + 1) []) =
     (pathsOfType e dirPath entries fileTypeModel,
      [pathsOfType e dirPath entries fileTypeModel,
       pathsOfType e dirPath entries fileTypeDataset,
       [],
       pathsOfType e dirPath entries fileTypeDocs,
       pathsOfType e dirPath entries fileTypeMetadata,
       pathsOfType e dirPath entries fileTypeUnknown])"
proof -
  have r: "replicate (fileType_int fileTypeUnknown + 1) [] = replicate 6 ([]::string list)"
    by simp
  have l: "length (replicate 6 ([]::string list)) = 6" by simp
  show ?thesis unfolding r classifyEntries_buckets [OF l] upt_6
    by (simp add: fileType_of_def pathsOfType_Code)
qed

lemma contentsLoop_buckets:
  "contentsLoop (enumerate 0 [m, ds, [], dc, md, un]) (fileTypeUnknown, False) =
     (if un \<noteq> [] then fileTypeUnknown
      else if dc \<noteq> [] then fileTypeDocs
      else if ds \<noteq> [] then fileTypeDataset
      else if m \<noteq> [] then fileTypeModel
      else fileTypeUnknown,
      (m \<noteq> [] \<and> ds \<noteq> []) \<or> (m \<noteq> [] \<and> dc \<noteq> []) \<or> (m \<noteq> [] \<and> un \<noteq> [])
      \<or> (ds \<noteq> [] \<and> dc \<noteq> []) \<or> (ds \<noteq> [] \<and> un \<noteq> []) \<or> (dc \<noteq> [] \<and> un \<noteq> []))"
  by (simp add: fileType_of_def)

lemma activeTypes_eq:
  "activeTypes entries =
     (if pathsOfType e dirPath entries fileTypeModel \<noteq> [] then [fileTypeModel] else []) @
     (if pathsOfType e dirPath entries fileTypeDataset \<noteq> [] then [fileTypeDataset] else []) @
     (if pathsOfType e dirPath entries fileTypeDocs \<noteq> [] then [fileTypeDocs] else []) @
     (if pathsOfType e dirPath entries fileTypeUnknown \<noteq> [] then [fileTypeUnknown] else [])"
  unfolding pathsOfType_Nil_iff activeTypes_def
  by (simp add: entryType_not_Code)

lemma nth_Metadata: "[m, ds, cd, dc, md, un] ! fileType_int fileTypeMetadata = md"
  by simp

lemma addDirToKitfile_buckets:
  assumes "Name d \<notin> {''docs'', ''src'', ''pkg'', ''lib'', ''build''}"
    and "ReadDir e (Join e baseDir dirPath) = Inr entries"
  shows "addDirToKitfile e kitfile baseDir dirPath d =
     (case contentsLoop (enumerate 0
             [pathsOfType e dirPath entries fileTypeModel,
              pathsOfType e dirPath entries fileTypeDataset,
              [],
              pathsOfType e dirPath entries fileTypeDocs,
              pathsOfType e dirPath entries fileTypeMetadata,
              pathsOfType e dirPath entries fileTypeUnknown]) (fileTypeUnknown, False) of
        (overallFiletype, directoryHasMixedContents) \<Rightarrow>
          if directoryHasMixedContents then
            (kitfile, pathsOfType e dirPath entries fileTypeModel, Some MixedContent)
          else
            (case overallFiletype of
               fileTypeModel \<Rightarrow>
                 (kitfile,
                  pathsOfType e dirPath entries fileTypeModel @
                  pathsOfType e dirPath entries fileTypeMetadata, None)
             | fileTypeDataset \<Rightarrow>
                 (kitfile\<lparr>kf_DataSets := kf_DataSets kitfile @
                    [\<lparr>dataset_Path = dirPath, dataset_License = []\<rparr>]\<rparr>,
                  pathsOfType e dirPath entries fileTypeModel, None)
             | fileTypeDocs \<Rightarrow>
                 (kitfile\<lparr>kf_Docs := kf_Docs kitfile @
                    [\<lparr>docs_Path = dirPath, docs_Description = []\<rparr>]\<rparr>,
                  pathsOfType e dirPath entries fileTypeModel, None)
             | _ \<Rightarrow> (kitfile, pathsOfType e dirPath entries fileTypeModel, Some HandleAsCode)))"
proof -
  have n: "Name d \<noteq> ''docs''"
    "\<not> (Name d = ''src'' \<or> Name d = ''pkg'' \<or> Name d = ''lib'' \<or> Name d = ''build'')"
    using assms(1) by auto
  show ?thesis
    unfolding addDirToKitfile_def if_not_P [OF n(1)] if_not_P [OF n(2)] assms(2) sum.case
      classifyEntries_initial prod.case nth_Metadata
    by (rule refl)
qed

text \<open>
  Claim C3. For a subdirectory that has none of the special names and can be read, each
  child is classified (a nested directory as Unknown) and the categories other than
  Metadata that have a member are the active ones. With more than one active category
  the summary fails as mixed. With Model alone the paths of the model files and then of
  the metadata files are returned as candidates; with Dataset or Docs alone the path of
  the directory is appended to that section. With no active category, or Code or Unknown
  alone, the summary fails as to be handled as code.
\<close>

theorem addDirToKitfile_verdict:
  assumes "Name d \<notin> {''docs'', ''src'', ''pkg'', ''lib'', ''build''}"
    and "ReadDir e (Join e baseDir dirPath) = Inr entries"
  shows "addDirToKitfile e kitfile baseDir dirPath d =
     (if length (activeTypes entries) > 1 then
        (kitfile, pathsOfType e dirPath entries fileTypeModel, Some MixedContent)
      else if activeTypes entries = [fileTypeModel] then
        (kitfile,
         pathsOfType e dirPath entries fileTypeModel @
         pathsOfType e dirPath entries fileTypeMetadata, None)
      else if activeTypes entries = [fileTypeDataset] then
        (kitfile\<lparr>kf_DataSets := kf_DataSets kitfile @
           [\<lparr>dataset_Path = dirPath, dataset_License = []\<rparr>]\<rparr>, [], None)
      else if activeTypes entries = [fileTypeDocs] then
        (kitfile\<lparr>kf_Docs := kf_Docs kitfile @
           [\<lparr>docs_Path = dirPath, docs_Description = []\<rparr>]\<rparr>, [], None)
      else (kitfile, [], Some HandleAsCode))"
proof -
  show ?thesis
    unfolding addDirToKitfile_buckets [OF assms] contentsLoop_buckets prod.case
      activeTypes_eq [of entries e dirPath]
    by (cases "pathsOfType e dirPath entries fileTypeModel = []";
        cases "pathsOfType e dirPath entries fileTypeDataset = []";
        cases "pathsOfType e dirPath entries fileTypeDocs = []";
        cases "pathsOfType e dirPath entries fileTypeUnknown = []") simp_all
qed

lemma projectEnv_ReadDir:
  "ReadDir projectEnv (Join projectEnv ''proj'' ''weights'') =
     Inr [DirEntry ''model.safetensors'' False, DirEntry ''adapter.bin'' False,
          DirEntry ''config.json'' False]"
  "ReadDir projectEnv (Join projectEnv ''proj'' ''mixed'') =
     Inr [DirEntry ''draft.pt'' False, DirEntry ''notes.md'' False]"
  "ReadDir projectEnv (Join projectEnv ''proj'' ''data'') =
     Inr [DirEntry ''train.csv'' False, DirEntry ''test.csv'' False]"
  by code_simp+

lemma projectEnv_activeTypes:
  "activeTypes [DirEntry ''model.safetensors'' False, DirEntry ''adapter.bin'' False,
          DirEntry ''config.json'' False] = [fileTypeModel]"
  "activeTypes [DirEntry ''draft.pt'' False, DirEntry ''notes.md'' False]
     = [fileTypeModel, fileTypeDocs]"
  "activeTypes [DirEntry ''train.csv'' False, DirEntry ''test.csv'' False] = [fileTypeDataset]"
  by code_simp+

lemma projectEnv_pathsOfType:
  "pathsOfType projectEnv ''weights'' [DirEntry ''model.safetensors'' False,
      DirEntry ''adapter.bin'' False, DirEntry ''config.json'' False] fileTypeModel
     = [''weights/model.safetensors'', ''weights/adapter.bin'']"
  "pathsOfType projectEnv ''weights'' [DirEntry ''model.safetensors'' False,
      DirEntry ''adapter.bin'' False, DirEntry ''config.json'' False] fileTypeMetadata
     = [''weights/config.json'']"
  "pathsOfType projectEnv ''mixed'' [DirEntry ''draft.pt'' False, DirEntry ''notes.md'' False]
      fileTypeModel = [''mixed/draft.pt'']"
  by code_simp+

theorem addDirToKitfile_verdict_witness:
  "addDirToKitfile projectEnv (initialKitfile None) ''proj'' ''weights'' (DirEntry ''weights'' True)
     = (initialKitfile None,
        [''weights/model.safetensors'', ''weights/adapter.bin'', ''weights/config.json''], None)
   \<and> addDirToKitfile projectEnv (initialKitfile None) ''proj'' ''mixed'' (DirEntry ''mixed'' True)
     = (initialKitfile None, [''mixed/draft.pt''], Some MixedContent)
   \<and> addDirToKitfile projectEnv (initialKitfile None) ''proj'' ''data'' (DirEntry ''data'' True)
     = ((initialKitfile None)\<lparr>kf_DataSets := [\<lparr>dataset_Path = ''data'', dataset_License = []\<rparr>]\<rparr>,
        [], None)"
proof -
  have n: "Name (DirEntry ''weights'' True) \<notin> {''docs'', ''src'', ''pkg'', ''lib'', ''build''}"
    "Name (DirEntry ''mixed'' True) \<notin> {''docs'', ''src'', ''pkg'', ''lib'', ''build''}"
    "Name (DirEntry ''data'' True) \<notin> {''docs'', ''src'', ''pkg'', ''lib'', ''build''}"
    by simp_all
  show ?thesis
    using addDirToKitfile_verdict [OF n(1) projectEnv_ReadDir(1), of "initialKitfile None"]
      addDirToKitfile_verdict [OF n(2) projectEnv_ReadDir(2), of "initialKitfile None"]
      addDirToKitfile_verdict [OF n(3) projectEnv_ReadDir(3), of "initialKitfile None"]
    unfolding projectEnv_activeTypes projectEnv_pathsOfType
    by (simp add: initialKitfile_def)
qed

lemma addDirToKitfile_error:
  assumes "snd (snd (addDirToKitfile e kitfile baseDir dirPath d)) = Some err"
  shows "addDirToKitfile e kitfile baseDir dirPath d =
     (kitfile,
      (case ReadDir e (Join e baseDir dirPath) of
         Inl oserr \<Rightarrow> []
       | Inr entries \<Rightarrow>
           if err = MixedContent then pathsOfType e dirPath entries fileTypeModel else []),
      Some err)"
proof (cases "Name d \<in> {''docs'', ''src'', ''pkg'', ''lib'', ''build''}")
  case True
  then show ?thesis using assms by (auto simp: addDirToKitfile_def)
next
  case False
  show ?thesis
  proof (cases "ReadDir e (Join e baseDir dirPath)")
    case (Inl oserr)
    then show ?thesis using assms False by (auto simp: addDirToKitfile_def)
  next
    case (Inr entries)
    show ?thesis
      using assms
      unfolding addDirToKitfile_buckets [OF False Inr] contentsLoop_buckets prod.case Inr sum.case
      by (cases "pathsOfType e dirPath entries fileTypeModel = []";
          cases "pathsOfType e dirPath entries fileTypeDataset = []";
          cases "pathsOfType e dirPath entries fileTypeDocs = []";
          cases "pathsOfType e dirPath entries fileTypeUnknown = []") auto
  qed
qed

section \<open>The pass over the root's entries\<close>

text \<open>
  Claim C4, as amended. When the summary of a subdirectory fails, no section of the
  manifest changes and the name of the directory is appended to the unprocessed
  directories. After a read error or a to-be-handled-as-code outcome no model candidate
  is accumulated; after a mixed-contents outcome the model files of the directory are
  still appended to the model candidates.
\<close>

theorem rootEntry_failed_dir:
  assumes "\<not> IsDefaultKitfileName e (Name d)" and "IsDir d"
    and "snd (snd (addDirToKitfile e (st_kitfile st) baseDir (Name d) d)) = Some err"
  shows "rootEntry e baseDir d st =
     st\<lparr>st_unprocessedDirPaths := st_unprocessedDirPaths st @ [Name d],
        st_modelFiles := st_modelFiles st @
          (case ReadDir e (Join e baseDir (Name d)) of
             Inl oserr \<Rightarrow> []
           | Inr entries \<Rightarrow>
               if err = MixedContent then pathsOfType e (Name d) entries fileTypeModel else [])\<rparr>"
  using assms(1,2) unfolding rootEntry_def Let_def addDirToKitfile_error [OF assms(3)]
  by simp


lemma projectEnv_failures:
  "snd (snd (addDirToKitfile projectEnv (st_kitfile (initialState None)) ''proj''
       (Name (DirEntry ''mixed'' True)) (DirEntry ''mixed'' True))) = Some MixedContent"
  "snd (snd (addDirToKitfile projectEnv (st_kitfile (initialState None)) ''proj''
       (Name (DirEntry ''scripts'' True)) (DirEntry ''scripts'' True))) = Some HandleAsCode"
  by code_simp+

lemma projectEnv_not_manifest:
  "\<not> IsDefaultKitfileName projectEnv (Name (DirEntry ''mixed'' True))"
  "\<not> IsDefaultKitfileName projectEnv (Name (DirEntry ''scripts'' True))"
  by code_simp+

theorem rootEntry_failed_dir_witness:
  "rootEntry projectEnv ''proj'' (DirEntry ''mixed'' True) (initialState None) =
     (initialState None)\<lparr>st_unprocessedDirPaths := [''mixed''],
                           st_modelFiles := [''mixed/draft.pt'']\<rparr>
   \<and> rootEntry projectEnv ''proj'' (DirEntry ''scripts'' True) (initialState None) =
     (initialState None)\<lparr>st_unprocessedDirPaths := [''scripts'']\<rparr>"
proof -
  have d: "IsDir (DirEntry ''mixed'' True)" "IsDir (DirEntry ''scripts'' True)" by simp_all
  have r: "ReadDir projectEnv (Join projectEnv ''proj'' ''scripts'') = Inr [DirEntry ''run.py'' False]"
    by code_simp
  show ?thesis
    using rootEntry_failed_dir [OF projectEnv_not_manifest(1) d(1) projectEnv_failures(1)]
      rootEntry_failed_dir [OF projectEnv_not_manifest(2) d(2) projectEnv_failures(2)]
    by (simp add: projectEnv_ReadDir projectEnv_pathsOfType r initialState_def)
qed

text \<open>
  The directory \<^verbatim>\<open>mixed\<close> holds a model file and a document: its summary fails, and the
  model file is a model candidate all the same.
\<close>

theorem failed_dir_counterexample:
  "snd (snd (addDirToKitfile projectEnv (st_kitfile (initialState None)) ''proj'' ''mixed''
       (DirEntry ''mixed'' True))) = Some MixedContent
   \<and> st_modelFiles (rootEntry projectEnv ''proj'' (DirEntry ''mixed'' True) (initialState None))
       = [''mixed/draft.pt'']
   \<and> rootEntry projectEnv ''proj'' (DirEntry ''mixed'' True) (initialState None) \<noteq>
       (initialState None)\<lparr>st_unprocessedDirPaths :=
          st_unprocessedDirPaths (initialState None) @ [''mixed'']\<rparr>"
proof -
  have m: "st_modelFiles (rootEntry projectEnv ''proj'' (DirEntry ''mixed'' True)
      (initialState None)) = [''mixed/draft.pt'']"
    by code_simp
  have f: "snd (snd (addDirToKitfile projectEnv (st_kitfile (initialState None)) ''proj'' ''mixed''
       (DirEntry ''mixed'' True))) = Some MixedContent"
    by code_simp
  have "st_modelFiles ((initialState None)\<lparr>st_unprocessedDirPaths :=
          st_unprocessedDirPaths (initialState None) @ [''mixed'']\<rparr>) = []"
    by (simp add: initialState_def)
  then have "rootEntry projectEnv ''proj'' (DirEntry ''mixed'' True) (initialState None) \<noteq>
       (initialState None)\<lparr>st_unprocessedDirPaths :=
          st_unprocessedDirPaths (initialState None) @ [''mixed'']\<rparr>"
    using m by auto
  then show ?thesis using m f by simp
qed

text \<open>The state after the pass, entry by entry.\<close>

lemma addDirToKitfile_frame:
  "addDirToKitfile e k baseDir p d =
     (case addDirToKitfile e (initialKitfile None) baseDir p d of
        (k0, mfs, err) \<Rightarrow>
          (k\<lparr>kf_Code := kf_Code k @ kf_Code k0,
              kf_DataSets := kf_DataSets k @ kf_DataSets k0,
              kf_Docs := kf_Docs k @ kf_Docs k0\<rparr>, mfs, err))"
  unfolding addDirToKitfile_def
  by (simp add: initialKitfile_def split: sum.splits prod.splits fileType.splits)

lemma dirSummary_Code:
  "kf_Code (fst (addDirToKitfile e (initialKitfile None) baseDir p d)) =
     (if Name d = ''src'' \<or> Name d = ''pkg'' \<or> Name d = ''lib'' \<or> Name d = ''build''
      then [newCode p] else [])"
  unfolding addDirToKitfile_def
  by (simp add: initialKitfile_def newCode_def split: sum.splits prod.splits fileType.splits)

lemma dirSummary_DataSets:
  "kf_DataSets (fst (addDirToKitfile e (initialKitfile None) baseDir p d)) =
     map newDataSet (map dataset_Path (kf_DataSets (fst (addDirToKitfile e (initialKitfile None) baseDir p d))))"
  unfolding addDirToKitfile_def
  by (simp add: initialKitfile_def newDataSet_def split: sum.splits prod.splits fileType.splits)

lemma addDirToKitfile_dirSummary:
  "addDirToKitfile e k baseDir (Name d) d =
      (k\<lparr>kf_Code := kf_Code k @ kf_Code (fst (dirSummary e baseDir d)),
          kf_DataSets := kf_DataSets k @ kf_DataSets (fst (dirSummary e baseDir d)),
          kf_Docs := kf_Docs k @ kf_Docs (fst (dirSummary e baseDir d))\<rparr>,
       fst (snd (dirSummary e baseDir d)), snd (snd (dirSummary e baseDir d)))"
  unfolding dirSummary_def
  by (subst addDirToKitfile_frame) (simp split: prod.splits)

lemma dirSummary_Code_entry:
  "kf_Code (fst (dirSummary e baseDir d)) =
     (if Name d = ''src'' \<or> Name d = ''pkg'' \<or> Name d = ''lib'' \<or> Name d = ''build''
      then [newCode (Name d)] else [])"
  unfolding dirSummary_def by (rule dirSummary_Code)

lemma dirSummary_DataSets_entry:
  "kf_DataSets (fst (dirSummary e baseDir d)) =
     map newDataSet (map dataset_Path (kf_DataSets (fst (dirSummary e baseDir d))))"
  unfolding dirSummary_def by (rule dirSummary_DataSets)

lemma rootEntry_subdirectory:
  assumes "subdirectory e d"
  shows "rootEntry e baseDir d st =
     st\<lparr>st_kitfile := (st_kitfile st)
          \<lparr>kf_Code := kf_Code (st_kitfile st) @ kf_Code (fst (dirSummary e baseDir d)),
           kf_DataSets := kf_DataSets (st_kitfile st) @ kf_DataSets (fst (dirSummary e baseDir d)),
           kf_Docs := kf_Docs (st_kitfile st) @ kf_Docs (fst (dirSummary e baseDir d))\<rparr>,
        st_unprocessedDirPaths :=
          (case snd (snd (dirSummary e baseDir d)) of
             Some err \<Rightarrow> st_unprocessedDirPaths st @ [Name d]
           | None \<Rightarrow> st_unprocessedDirPaths st),
        st_modelFiles := st_modelFiles st @ fst (snd (dirSummary e baseDir d))\<rparr>"
  using assms unfolding rootEntry_def Let_def subdirectory_def addDirToKitfile_dirSummary
  by (simp add: case_prod_beta)

lemma rootEntry_plainFile:
  assumes "plainFile e d"
  shows "rootEntry e baseDir d st =
     (case determineFileType (Name d) of
        fileTypeModel \<Rightarrow> st\<lparr>st_modelFiles := st_modelFiles st @ [Name d]\<rparr>
      | fileTypeMetadata \<Rightarrow> st\<lparr>st_metadataPaths := st_metadataPaths st @ [Name d]\<rparr>
      | fileTypeDocs \<Rightarrow> addDocs \<lparr>docs_Path = Name d, docs_Description = []\<rparr> st
      | fileTypeDataset \<Rightarrow>
          st\<lparr>st_kitfile := (st_kitfile st)\<lparr>kf_DataSets := kf_DataSets (st_kitfile st) @
               [newDataSet (Name d)]\<rparr>\<rparr>
      | _ \<Rightarrow> st\<lparr>st_includeCatchallSection := True\<rparr>)"
  using assms unfolding rootEntry_def Let_def plainFile_def newDataSet_def
  by simp

lemma rootEntry_licenseFile:
  assumes "licenseFile e d"
  shows "rootEntry e baseDir d st =
     (addDocs \<lparr>docs_Path = Name d, docs_Description = ''License file''\<rparr> st)
       \<lparr>st_detectedLicenseType := fst (detectLicense e (Join e baseDir (Name d)))\<rparr>"
  using assms unfolding rootEntry_def Let_def licenseFile_def
  by (simp split: prod.splits)

lemma rootEntry_other:
  assumes "\<not> subdirectory e d" "\<not> licenseFile e d" "\<not> plainFile e d"
  shows "rootEntry e baseDir d st = st \<or>
     rootEntry e baseDir d st = addDocs \<lparr>docs_Path = Name d, docs_Description = ''Readme file''\<rparr> st"
  using assms unfolding rootEntry_def Let_def licenseFile_def plainFile_def subdirectory_def
  by auto


lemma kinds_exclusive:
  "subdirectory e d \<Longrightarrow> \<not> plainFile e d \<and> \<not> licenseFile e d"
  "plainFile e d \<Longrightarrow> \<not> subdirectory e d \<and> \<not> licenseFile e d"
  "licenseFile e d \<Longrightarrow> \<not> subdirectory e d \<and> \<not> plainFile e d"
  by (auto simp: subdirectory_def licenseFile_def plainFile_def)

lemma rootEntry_fields:
  "st_includeCatchallSection (rootEntry e baseDir d st) =
     (st_includeCatchallSection st \<or> entryCatchAll e d)"
  "st_unprocessedDirPaths (rootEntry e baseDir d st) =
     st_unprocessedDirPaths st @ entryUnprocessed e baseDir d"
  "st_modelFiles (rootEntry e baseDir d st) = st_modelFiles st @ entryCandidates e baseDir d"
  "st_metadataPaths (rootEntry e baseDir d st) = st_metadataPaths st @ entryMetadata e d"
  "st_detectedLicenseType (rootEntry e baseDir d st) =
     (if licenseFile e d then fst (detectLicense e (Join e baseDir (Name d)))
      else st_detectedLicenseType st)"
  "kf_Model (st_kitfile (rootEntry e baseDir d st)) = kf_Model (st_kitfile st)"
  "kf_Package (st_kitfile (rootEntry e baseDir d st)) = kf_Package (st_kitfile st)"
  "kf_Code (st_kitfile (rootEntry e baseDir d st)) =
     kf_Code (st_kitfile st) @ map newCode (entryCode e d)"
  "kf_DataSets (st_kitfile (rootEntry e baseDir d st)) =
     kf_DataSets (st_kitfile st) @ map newDataSet (entryDatasets e baseDir d)"
proof -
  consider (dir) "subdirectory e d" | (lic) "licenseFile e d" | (plain) "plainFile e d"
    | (other) "\<not> subdirectory e d" "\<not> licenseFile e d" "\<not> plainFile e d"
    by blast
  then have "
    st_includeCatchallSection (rootEntry e baseDir d st) =
     (st_includeCatchallSection st \<or> entryCatchAll e d) \<and>
    st_unprocessedDirPaths (rootEntry e baseDir d st) =
     st_unprocessedDirPaths st @ entryUnprocessed e baseDir d \<and>
    st_modelFiles (rootEntry e baseDir d st) = st_modelFiles st @ entryCandidates e baseDir d \<and>
    st_metadataPaths (rootEntry e baseDir d st) = st_metadataPaths st @ entryMetadata e d \<and>
    st_detectedLicenseType (rootEntry e baseDir d st) =
     (if licenseFile e d then fst (detectLicense e (Join e baseDir (Name d)))
      else st_detectedLicenseType st) \<and>
    kf_Model (st_kitfile (rootEntry e baseDir d st)) = kf_Model (st_kitfile st) \<and>
    kf_Package (st_kitfile (rootEntry e baseDir d st)) = kf_Package (st_kitfile st) \<and>
    kf_Code (st_kitfile (rootEntry e baseDir d st)) =
     kf_Code (st_kitfile st) @ map newCode (entryCode e d) \<and>
    kf_DataSets (st_kitfile (rootEntry e baseDir d st)) =
     kf_DataSets (st_kitfile st) @ map newDataSet (entryDatasets e baseDir d)"
  proof cases
    case dir
    note k = kinds_exclusive(1) [OF dir]
    show ?thesis
      unfolding rootEntry_subdirectory [OF dir]
      using dir k dirSummary_DataSets_entry [of e baseDir d]
      by (simp add: entryCatchAll_def entryUnprocessed_def entryCandidates_def entryMetadata_def
          entryCode_def entryDatasets_def dirSummary_Code_entry split: option.splits)
  next
    case lic
    note k = kinds_exclusive(3) [OF lic]
    show ?thesis
      unfolding rootEntry_licenseFile [OF lic]
      using lic k
      by (simp add: entryCatchAll_def entryUnprocessed_def entryCandidates_def entryMetadata_def
          entryCode_def entryDatasets_def addDocs_def)
  next
    case plain
    note k = kinds_exclusive(2) [OF plain]
    show ?thesis
      unfolding rootEntry_plainFile [OF plain]
      using plain k
      by (cases "determineFileType (Name d)")
        (simp_all add: entryCatchAll_def entryUnprocessed_def entryCandidates_def
          entryMetadata_def entryCode_def entryDatasets_def addDocs_def)
  next
    case other
    from rootEntry_other [OF other, of baseDir st] show ?thesis
      using other
      by (auto simp: entryCatchAll_def entryUnprocessed_def entryCandidates_def
          entryMetadata_def entryCode_def entryDatasets_def addDocs_def)
  qed
  then show
    "st_includeCatchallSection (rootEntry e baseDir d st) =
     (st_includeCatchallSection st \<or> entryCatchAll e d)"
    "st_unprocessedDirPaths (rootEntry e baseDir d st) =
     st_unprocessedDirPaths st @ entryUnprocessed e baseDir d"
    "st_modelFiles (rootEntry e baseDir d st) = st_modelFiles st @ entryCandidates e baseDir d"
    "st_metadataPaths (rootEntry e baseDir d st) = st_metadataPaths st @ entryMetadata e d"
    "st_detectedLicenseType (rootEntry e baseDir d st) =
     (if licenseFile e d then fst (detectLicense e (Join e baseDir (Name d)))
      else st_detectedLicenseType st)"
    "kf_Model (st_kitfile (rootEntry e baseDir d st)) = kf_Model (st_kitfile st)"
    "kf_Package (st_kitfile (rootEntry e baseDir d st)) = kf_Package (st_kitfile st)"
    "kf_Code (st_kitfile (rootEntry e baseDir d st)) =
     kf_Code (st_kitfile st) @ map newCode (entryCode e d)"
    "kf_DataSets (st_kitfile (rootEntry e baseDir d st)) =
     kf_DataSets (st_kitfile st) @ map newDataSet (entryDatasets e baseDir d)"
    by blast+
qed


lemma rootLoop_includeCatchallSection:
  "st_includeCatchallSection (rootLoop e baseDir ds st) =
     (st_includeCatchallSection st \<or> catchAllFlag e ds)"
  by (induction ds arbitrary: st)
    (auto simp: rootEntry_fields catchAllFlag_def entryCatchAll_def)

lemma rootLoop_unprocessedDirPaths:
  "st_unprocessedDirPaths (rootLoop e baseDir ds st) =
     st_unprocessedDirPaths st @ unprocessedDirs e baseDir ds"
  by (induction ds arbitrary: st)
    (simp_all add: rootEntry_fields unprocessedDirs_def entryUnprocessed_def)

lemma rootLoop_modelFiles:
  "st_modelFiles (rootLoop e baseDir ds st) = st_modelFiles st @ modelCandidates e baseDir ds"
  by (induction ds arbitrary: st) (simp_all add: rootEntry_fields modelCandidates_def)

lemma rootLoop_metadataPaths:
  "st_metadataPaths (rootLoop e baseDir ds st) = st_metadataPaths st @ metadataFiles e ds"
  by (induction ds arbitrary: st)
    (simp_all add: rootEntry_fields metadataFiles_def entryMetadata_def)

lemma rootLoop_detectedLicenseType:
  "st_detectedLicenseType (rootLoop e baseDir ds st) =
     fold (\<lambda>d licenseType.
             if licenseFile e d then fst (detectLicense e (Join e baseDir (Name d)))
             else licenseType) ds (st_detectedLicenseType st)"
  by (induction ds arbitrary: st) (simp_all add: rootEntry_fields)

lemma rootLoop_Model:
  "kf_Model (st_kitfile (rootLoop e baseDir ds st)) = kf_Model (st_kitfile st)"
  by (induction ds arbitrary: st) (simp_all add: rootEntry_fields)

lemma rootLoop_Package:
  "kf_Package (st_kitfile (rootLoop e baseDir ds st)) = kf_Package (st_kitfile st)"
  by (induction ds arbitrary: st) (simp_all add: rootEntry_fields)

lemma rootLoop_Code:
  "kf_Code (st_kitfile (rootLoop e baseDir ds st)) =
     kf_Code (st_kitfile st) @ map newCode (codeDirs e ds)"
  by (induction ds arbitrary: st)
    (simp_all add: rootEntry_fields codeDirs_def entryCode_def)

lemma rootLoop_DataSets:
  "kf_DataSets (st_kitfile (rootLoop e baseDir ds st)) =
     kf_DataSets (st_kitfile st) @ map newDataSet (passDatasets e baseDir ds)"
  by (induction ds arbitrary: st) (simp_all add: rootEntry_fields passDatasets_def)

section \<open>The finished manifest\<close>

lemma sizeLoop_Inl_iff:
  "(\<exists>err. sizeLoop e baseDir ps st = Inl err) \<longleftrightarrow>
     (\<exists>p\<in>set ps. isl (Stat e (Join e baseDir p)))"
proof (induction ps arbitrary: st)
  case Nil
  show ?case by simp
next
  case (Cons p ps)
  obtain lf ls av where st: "st = (lf, ls, av)" by (cases st) auto
  show ?case
  proof (cases "Stat e (Join e baseDir p)")
    case (Inl oserr)
    then show ?thesis unfolding st by simp
  next
    case (Inr info)
    then show ?thesis unfolding st using Cons.IH by (simp add: Let_def)
  qed
qed

lemma addModelToKitfile_Inl_iff:
  "(\<exists>err. addModelToKitfile e k baseDir ps = Inl err) \<longleftrightarrow>
     2 \<le> length ps \<and> (\<exists>p\<in>set ps. isl (Stat e (Join e baseDir p)))"
proof (cases ps)
  case Nil
  then show ?thesis by (simp add: addModelToKitfile_def)
next
  case (Cons p1 rest)
  show ?thesis
  proof (cases rest)
    case Nil
    then show ?thesis using Cons by (simp add: addModelToKitfile_def Let_def)
  next
    case (Cons p2 ps')
    have ps: "ps = p1 # p2 # ps'" using \<open>ps = p1 # rest\<close> Cons by simp
    have "(\<exists>err. addModelToKitfile e k baseDir ps = Inl err) \<longleftrightarrow>
        (\<exists>err. sizeLoop e baseDir ps ([], 0, 0) = Inl err)"
      unfolding ps addModelToKitfile_def
      by (simp add: Let_def split: sum.splits prod.splits)
    then show ?thesis unfolding sizeLoop_Inl_iff using ps by simp
  qed
qed

lemma addModelToKitfile_frame:
  assumes "addModelToKitfile e k baseDir ps = Inr k'"
  shows "kf_Code k' = kf_Code k" "kf_DataSets k' = kf_DataSets k" "kf_Docs k' = kf_Docs k"
    "kf_Package k' = kf_Package k" "ManifestVersion k' = ManifestVersion k"
    "ps \<noteq> [] \<Longrightarrow> \<exists>m. kf_Model k' = Some m \<and> model_License m = []"
    "ps = [] \<Longrightarrow> k' = k"
  using assms unfolding addModelToKitfile_def
  by (auto simp: Let_def split: list.splits sum.splits prod.splits if_splits)

lemma modelElection_kitfile:
  "modelElection (addModelToKitfile e k baseDir ps) =
     (if ps = [] then map_option (\<lambda>m. (model_Path m, map part_Path (model_Parts m))) (kf_Model k)
      else modelElection (addModelToKitfile e k' baseDir ps))"
  unfolding addModelToKitfile_def modelElection_def
  by (auto simp: Let_def split: list.splits sum.splits prod.splits if_splits)

lemma appendParts_Some:
  "kf_Model k = Some m \<Longrightarrow>
     appendParts k ms =
       Inr (k\<lparr>kf_Model :=
         Some (m\<lparr>model_Parts := model_Parts m @ map (\<lambda>p. \<lparr>part_Path = p\<rparr>) ms\<rparr>)\<rparr>)"
proof (induction ms arbitrary: k m)
  case Nil
  then show ?case by simp
next
  case (Cons p ms)
  show ?case using Cons.prems by (simp add: Cons.IH)
qed


lemma detectedLicense_rootLoop:
  "st_detectedLicenseType (rootLoop e baseDir ds (initialState packageOpt)) =
     detectedLicense e baseDir ds"
  by (simp add: rootLoop_detectedLicenseType detectedLicense_def initialState_def)

lemma initialState_fields:
  "st_includeCatchallSection (initialState packageOpt) = False"
  "st_unprocessedDirPaths (initialState packageOpt) = []"
  "st_modelFiles (initialState packageOpt) = []"
  "st_metadataPaths (initialState packageOpt) = []"
  "st_kitfile (initialState packageOpt) = initialKitfile packageOpt"
  by (simp_all add: initialState_def)

lemma GenerateKitfile_unfold:
  assumes "ReadDir e baseDir = Inr ds"
  shows "GenerateKitfile e baseDir packageOpt =
     (case addModelAndMetadata e (st_kitfile (rootLoop e baseDir ds (initialState packageOpt)))
             baseDir (modelCandidates e baseDir ds) (metadataFiles e ds) of
        Inl err \<Rightarrow> Inl err
      | Inr k \<Rightarrow>
          Inr (attachLicense
                 (addCodeLayers k (catchAllFlag e ds) (unprocessedDirs e baseDir ds))
                 (detectedLicense e baseDir ds)))"
  unfolding GenerateKitfile_def assms sum.case Let_def detectedLicense_rootLoop
    rootLoop_modelFiles rootLoop_metadataPaths rootLoop_includeCatchallSection
    rootLoop_unprocessedDirPaths initialState_fields append_Nil simp_thms
  by (rule TrueI)

lemma addModelAndMetadata_Inl_iff:
  "(\<exists>err. addModelAndMetadata e k baseDir mfs mds = Inl err) \<longleftrightarrow>
     (\<exists>err. addModelToKitfile e k baseDir mfs = Inl err)"
proof (cases "mfs = []")
  case True
  then show ?thesis by (simp add: addModelAndMetadata_def addModelToKitfile_def)
next
  case False
  show ?thesis
  proof (cases "addModelToKitfile e k baseDir mfs")
    case (Inl err)
    then show ?thesis using False by (simp add: addModelAndMetadata_def)
  next
    case (Inr k')
    from addModelToKitfile_frame(6) [OF Inr False]
    obtain m where "kf_Model k' = Some m" by blast
    then show ?thesis using False Inr by (simp add: addModelAndMetadata_def appendParts_Some)
  qed
qed

lemma GenerateKitfile_Inl_iff:
  "(\<exists>err. GenerateKitfile e baseDir packageOpt = Inl err) \<longleftrightarrow>
     (case ReadDir e baseDir of
        Inl oserr \<Rightarrow> True
      | Inr ds \<Rightarrow>
          2 \<le> length (modelCandidates e baseDir ds) \<and>
          list_ex (\<lambda>p. isl (Stat e (Join e baseDir p))) (modelCandidates e baseDir ds))"
proof (cases "ReadDir e baseDir")
  case (Inl oserr)
  then show ?thesis by (simp add: GenerateKitfile_def)
next
  case (Inr ds)
  let ?k = "st_kitfile (rootLoop e baseDir ds (initialState packageOpt))"
  have "(\<exists>err. GenerateKitfile e baseDir packageOpt = Inl err) \<longleftrightarrow>
      (\<exists>err. addModelAndMetadata e ?k baseDir (modelCandidates e baseDir ds)
          (metadataFiles e ds) = Inl err)"
    unfolding GenerateKitfile_unfold [OF Inr] by (simp split: sum.splits)
  then show ?thesis
    unfolding addModelAndMetadata_Inl_iff addModelToKitfile_Inl_iff Inr
    by (simp add: list_ex_iff)
qed


lemma rootLoop_initial:
  "kf_Model (st_kitfile (rootLoop e baseDir ds (initialState packageOpt))) = None"
  "kf_Package (st_kitfile (rootLoop e baseDir ds (initialState packageOpt))) =
     (case packageOpt of None \<Rightarrow> emptyPackage | Some p \<Rightarrow> p)"
  "kf_Code (st_kitfile (rootLoop e baseDir ds (initialState packageOpt))) =
     map newCode (codeDirs e ds)"
  "kf_DataSets (st_kitfile (rootLoop e baseDir ds (initialState packageOpt))) =
     map newDataSet (passDatasets e baseDir ds)"
  by (simp_all add: rootLoop_Model rootLoop_Package rootLoop_Code rootLoop_DataSets
      initialState_def initialKitfile_def)

lemma GenerateKitfile_Inr:
  assumes rd: "ReadDir e baseDir = Inr ds"
    and gen: "GenerateKitfile e baseDir packageOpt = Inr kitfile"
  obtains k where
    "kitfile = attachLicense
       (addCodeLayers k (catchAllFlag e ds) (unprocessedDirs e baseDir ds))
       (detectedLicense e baseDir ds)"
    and "kf_Package k = (case packageOpt of None \<Rightarrow> emptyPackage | Some p \<Rightarrow> p)"
    and "kf_Code k = map newCode (codeDirs e ds)"
    and "modelCandidates e baseDir ds = [] \<Longrightarrow>
           kf_Model k = None \<and>
           kf_DataSets k = map newDataSet (passDatasets e baseDir ds @ metadataFiles e ds)"
    and "modelCandidates e baseDir ds \<noteq> [] \<Longrightarrow>
           kf_DataSets k = map newDataSet (passDatasets e baseDir ds) \<and>
           (\<exists>k' m. addModelToKitfile e
                (st_kitfile (rootLoop e baseDir ds (initialState packageOpt)))
                baseDir (modelCandidates e baseDir ds) = Inr k' \<and>
              kf_Model k' = Some m \<and> model_License m = [] \<and>
              kf_Model k = Some (m\<lparr>model_Parts := model_Parts m @
                 map (\<lambda>p. \<lparr>part_Path = p\<rparr>) (metadataFiles e ds)\<rparr>))"
proof -
  let ?k0 = "st_kitfile (rootLoop e baseDir ds (initialState packageOpt))"
  let ?mfs = "modelCandidates e baseDir ds"
  let ?mds = "metadataFiles e ds"
  from gen obtain k where k: "addModelAndMetadata e ?k0 baseDir ?mfs ?mds = Inr k"
    and kitfile: "kitfile = attachLicense
       (addCodeLayers k (catchAllFlag e ds) (unprocessedDirs e baseDir ds))
       (detectedLicense e baseDir ds)"
    unfolding GenerateKitfile_unfold [OF rd] by (auto split: sum.splits)
  show ?thesis
  proof (cases "?mfs = []")
    case True
    then have "k = ?k0\<lparr>kf_DataSets := kf_DataSets ?k0 @ map newDataSet ?mds\<rparr>"
      using k by (auto simp: addModelAndMetadata_def newDataSet_def)
    then have "kf_Package k = (case packageOpt of None \<Rightarrow> emptyPackage | Some p \<Rightarrow> p)"
      "kf_Code k = map newCode (codeDirs e ds)"
      "kf_Model k = None \<and>
         kf_DataSets k = map newDataSet (passDatasets e baseDir ds @ metadataFiles e ds)"
      by (simp_all add: rootLoop_initial)
    then show ?thesis using that [OF kitfile] True by blast
  next
    case False
    from k False obtain k' where k': "addModelToKitfile e ?k0 baseDir ?mfs = Inr k'"
      and ap: "appendParts k' ?mds = Inr k"
      by (auto simp: addModelAndMetadata_def split: sum.splits)
    from addModelToKitfile_frame(6) [OF k' False]
    obtain m where m: "kf_Model k' = Some m" "model_License m = []" by blast
    have keq: "k = k'\<lparr>kf_Model := Some (m\<lparr>model_Parts := model_Parts m @
        map (\<lambda>p. \<lparr>part_Path = p\<rparr>) ?mds\<rparr>)\<rparr>"
      using ap unfolding appendParts_Some [OF m(1)] by simp
    have "kf_Package k = (case packageOpt of None \<Rightarrow> emptyPackage | Some p \<Rightarrow> p)"
      "kf_Code k = map newCode (codeDirs e ds)"
      "kf_DataSets k = map newDataSet (passDatasets e baseDir ds)"
      unfolding keq using addModelToKitfile_frame(1,2,4) [OF k']
      by (simp_all add: rootLoop_initial)
    moreover have "\<exists>k' m. addModelToKitfile e ?k0 baseDir ?mfs = Inr k' \<and>
              kf_Model k' = Some m \<and> model_License m = [] \<and>
              kf_Model k = Some (m\<lparr>model_Parts := model_Parts m @
                 map (\<lambda>p. \<lparr>part_Path = p\<rparr>) ?mds\<rparr>)"
      using k' m keq by auto
    ultimately show ?thesis using that [OF kitfile] False by blast
  qed
qed

lemma attachLicense_paths:
  "map code_Path (kf_Code (attachLicense k lic)) = map code_Path (kf_Code k)"
  "map dataset_Path (kf_DataSets (attachLicense k lic)) = map dataset_Path (kf_DataSets k)"
  "map_option (\<lambda>m. (model_Path m, model_Name m, model_Parts m)) (kf_Model (attachLicense k lic))
     = map_option (\<lambda>m. (model_Path m, model_Name m, model_Parts m)) (kf_Model k)"
  "kf_Docs (attachLicense k lic) = kf_Docs k"
  by (auto simp: attachLicense_def map_update list_update_same_conv option.map_comp comp_def
      intro!: option.map_cong)

lemma addCodeLayers_fields:
  "map code_Path (kf_Code (addCodeLayers k flag un)) =
     (if flag \<or> length un > 5 then [''.''] else map code_Path (kf_Code k) @ un)"
  "kf_DataSets (addCodeLayers k flag un) = kf_DataSets k"
  "kf_Model (addCodeLayers k flag un) = kf_Model k"
  "kf_Package (addCodeLayers k flag un) = kf_Package k"
  "kf_Code (addCodeLayers k flag un) =
     (if flag \<or> length un > 5 then [newCode ''.''] else kf_Code k @ map newCode un)"
  by (simp_all add: addCodeLayers_def comp_def newCode_def)

lemma code_Path_newCode: "map code_Path (map newCode ps) = ps"
  by (simp add: comp_def newCode_def)

lemma GenerateKitfile_Code_paths:
  assumes "ReadDir e baseDir = Inr ds"
    and "GenerateKitfile e baseDir packageOpt = Inr kitfile"
  shows "map code_Path (kf_Code kitfile) =
     (if catchAllFlag e ds \<or> length (unprocessedDirs e baseDir ds) > 5 then [''.'']
      else codeDirs e ds @ unprocessedDirs e baseDir ds)"
proof -
  from GenerateKitfile_Inr [OF assms] obtain k where
    "kitfile = attachLicense
       (addCodeLayers k (catchAllFlag e ds) (unprocessedDirs e baseDir ds))
       (detectedLicense e baseDir ds)"
    and "kf_Code k = map newCode (codeDirs e ds)"
    by blast
  then show ?thesis
    by (simp add: attachLicense_paths(1) addCodeLayers_fields(1) code_Path_newCode
        del: map_map)
qed

text \<open>
  Claim C6. In a generated manifest the code section is the single entry \<^verbatim>\<open>.\<close> when some
  plain file of the root is of the Code or Unknown type or more than five subdirectories
  are unprocessed, whatever code entries the pass added; otherwise it is the code
  directories followed by the unprocessed directories, each in the order of the root's
  entries. A root of seven subdirectories whose summaries all fail gives the single
  entry \<^verbatim>\<open>.\<close>.
\<close>

theorem GenerateKitfile_code_section:
  assumes "ReadDir e baseDir = Inr ds"
    and "GenerateKitfile e baseDir packageOpt = Inr kitfile"
  shows "map code_Path (kf_Code kitfile) =
     (if catchAllFlag e ds \<or> length (unprocessedDirs e baseDir ds) > 5 then [''.'']
      else codeDirs e ds @ unprocessedDirs e baseDir ds)"
  using assms by (rule GenerateKitfile_Code_paths)

lemma sevenDirsEnv_run:
  "ReadDir sevenDirsEnv ''root'' = Inr sevenDirs"
  "GenerateKitfile sevenDirsEnv ''root'' None =
     Inr \<lparr>ManifestVersion = ''1.0.0'', kf_Package = emptyPackage, kf_Model = None,
          kf_Code = [\<lparr>code_Path = ''.'', code_License = []\<rparr>],
          kf_DataSets = [], kf_Docs = []\<rparr>"
  "catchAllFlag sevenDirsEnv sevenDirs = False"
  "unprocessedDirs sevenDirsEnv ''root'' sevenDirs =
     [''a1'', ''a2'', ''a3'', ''a4'', ''a5'', ''a6'', ''a7'']"
  by code_simp+

theorem GenerateKitfile_code_section_witness:
  "GenerateKitfile sevenDirsEnv ''root'' None =
     Inr \<lparr>ManifestVersion = ''1.0.0'', kf_Package = emptyPackage, kf_Model = None,
          kf_Code = [\<lparr>code_Path = ''.'', code_License = []\<rparr>],
          kf_DataSets = [], kf_Docs = []\<rparr>
   \<and> length (unprocessedDirs sevenDirsEnv ''root'' sevenDirs) = 7
   \<and> map code_Path (kf_Code \<lparr>ManifestVersion = ''1.0.0'', kf_Package = emptyPackage,
          kf_Model = None, kf_Code = [\<lparr>code_Path = ''.'', code_License = []\<rparr>],
          kf_DataSets = [], kf_Docs = []\<rparr>) = [''.'']"
  using GenerateKitfile_code_section [OF sevenDirsEnv_run(1,2)]
  by (simp add: sevenDirsEnv_run)

lemma codeDirs_subset:
  "p \<in> set (codeDirs e ds) \<Longrightarrow>
     \<exists>d\<in>set ds. IsDir d \<and> Name d = p \<and> p \<in> {''src'', ''pkg'', ''lib'', ''build''}"
  by (auto simp: codeDirs_def subdirectory_def)

lemma unprocessedDirs_subset:
  "p \<in> set (unprocessedDirs e baseDir ds) \<Longrightarrow> \<exists>d\<in>set ds. IsDir d \<and> Name d = p"
  by (auto simp: unprocessedDirs_def subdirectory_def)

text \<open>
  Claim C10. The suffix classifier never answers Code, so no file is put into the code
  section as a file: every entry of the code section of a generated manifest has the
  path \<^verbatim>\<open>.\<close> or the name of a subdirectory of the root, which is one of \<^verbatim>\<open>src\<close>,
  \<^verbatim>\<open>pkg\<close>, \<^verbatim>\<open>lib\<close> and \<^verbatim>\<open>build\<close> or an unprocessed directory.
\<close>

theorem GenerateKitfile_code_entries:
  "determineFileType filename \<noteq> fileTypeCode \<and>
   (ReadDir e baseDir = Inr ds \<and> GenerateKitfile e baseDir packageOpt = Inr kitfile \<longrightarrow>
      (\<forall>c\<in>set (kf_Code kitfile).
         code_Path c = ''.'' \<or>
         (\<exists>d\<in>set ds. IsDir d \<and> Name d = code_Path c \<and>
            (code_Path c \<in> {''src'', ''pkg'', ''lib'', ''build''} \<or>
             code_Path c \<in> set (unprocessedDirs e baseDir ds)))))"
proof (intro conjI impI ballI)
  show "determineFileType filename \<noteq> fileTypeCode" by (rule determineFileType_not_Code)
next
  fix c
  assume a: "ReadDir e baseDir = Inr ds \<and> GenerateKitfile e baseDir packageOpt = Inr kitfile"
    and c: "c \<in> set (kf_Code kitfile)"
  from c have "code_Path c \<in> set (map code_Path (kf_Code kitfile))" by simp
  then have "code_Path c = ''.'' \<or> code_Path c \<in> set (codeDirs e ds)
      \<or> code_Path c \<in> set (unprocessedDirs e baseDir ds)"
    unfolding GenerateKitfile_Code_paths [OF a [THEN conjunct1] a [THEN conjunct2]]
    by (auto split: if_splits)
  then show "code_Path c = ''.'' \<or>
         (\<exists>d\<in>set ds. IsDir d \<and> Name d = code_Path c \<and>
            (code_Path c \<in> {''src'', ''pkg'', ''lib'', ''build''} \<or>
             code_Path c \<in> set (unprocessedDirs e baseDir ds)))"
    using codeDirs_subset [of "code_Path c" e ds]
      unprocessedDirs_subset [of "code_Path c" e baseDir ds]
    by blast
qed


lemma projectEnv_run:
  "ReadDir projectEnv ''proj'' = Inr projectEntries"
  "GenerateKitfile projectEnv ''proj'' None = Inr projectManifest"
  by code_simp+

lemma projectEnv_pass:
  "unprocessedDirs projectEnv ''proj'' projectEntries = [''mixed'', ''scripts'']"
  "codeDirs projectEnv projectEntries = [''src'']"
  "catchAllFlag projectEnv projectEntries = False"
  "modelCandidates projectEnv ''proj'' projectEntries =
     [''weights/model.safetensors'', ''weights/adapter.bin'', ''weights/config.json'',
      ''mixed/draft.pt'']"
  "metadataFiles projectEnv projectEntries = [''tokenizer.json'']"
  "passDatasets projectEnv ''proj'' projectEntries = [''data'']"
  "detectedLicense projectEnv ''proj'' projectEntries = ''MIT''"
  by code_simp+

theorem GenerateKitfile_code_entries_witness:
  "determineFileType ''main.go'' \<noteq> fileTypeCode
   \<and> GenerateKitfile projectEnv ''proj'' None = Inr projectManifest
   \<and> list_all (\<lambda>c. code_Path c = ''.'' \<or>
         list_ex (\<lambda>d. IsDir d \<and> Name d = code_Path c \<and>
            (code_Path c \<in> {''src'', ''pkg'', ''lib'', ''build''} \<or>
             code_Path c \<in> set (unprocessedDirs projectEnv ''proj'' projectEntries)))
           projectEntries)
       (kf_Code projectManifest)"
  using GenerateKitfile_code_entries [of "''main.go''" projectEnv "''proj''" projectEntries
      None projectManifest]
  by (simp add: projectEnv_run list_all_iff list_ex_iff)

lemma attachLicense_Model_None:
  "kf_Model (attachLicense k lic) = None \<longleftrightarrow> kf_Model k = None"
  by (simp add: attachLicense_def)

lemma modelElection_Inr:
  "modelElection (Inr k) =
     map_option (\<lambda>(p, n, parts). (p, map part_Path parts))
       (map_option (\<lambda>m. (model_Path m, model_Name m, model_Parts m)) (kf_Model k))"
  by (simp add: modelElection_def option.map_comp comp_def)

lemma dataset_Path_newDataSet: "map dataset_Path (map newDataSet ps) = ps"
  by (simp add: comp_def newDataSet_def)

lemma GenerateKitfile_with_model:
  assumes rd: "ReadDir e baseDir = Inr ds"
    and gen: "GenerateKitfile e baseDir packageOpt = Inr kitfile"
    and ne: "modelCandidates e baseDir ds \<noteq> []"
  shows "modelElection (Inr kitfile) =
       map_option (\<lambda>(p, parts). (p, parts @ metadataFiles e ds))
         (modelElection (addModelToKitfile e (initialKitfile packageOpt) baseDir
            (modelCandidates e baseDir ds)))"
    and "kf_Model kitfile \<noteq> None"
    and "map dataset_Path (kf_DataSets kitfile) = passDatasets e baseDir ds"
proof -
  let ?k0 = "st_kitfile (rootLoop e baseDir ds (initialState packageOpt))"
  from GenerateKitfile_Inr [OF rd gen] ne obtain k k' m where
    kitfile: "kitfile = attachLicense
       (addCodeLayers k (catchAllFlag e ds) (unprocessedDirs e baseDir ds))
       (detectedLicense e baseDir ds)"
    and dsets: "kf_DataSets k = map newDataSet (passDatasets e baseDir ds)"
    and k': "addModelToKitfile e ?k0 baseDir (modelCandidates e baseDir ds) = Inr k'"
    and m: "kf_Model k' = Some m"
    and km: "kf_Model k = Some (m\<lparr>model_Parts := model_Parts m @
                 map (\<lambda>p. \<lparr>part_Path = p\<rparr>) (metadataFiles e ds)\<rparr>)"
    by metis
  have "modelElection (addModelToKitfile e (initialKitfile packageOpt) baseDir
            (modelCandidates e baseDir ds)) =
        modelElection (addModelToKitfile e ?k0 baseDir (modelCandidates e baseDir ds))"
    using ne modelElection_kitfile [of e "initialKitfile packageOpt" baseDir
        "modelCandidates e baseDir ds" ?k0] by simp
  also have "\<dots> = Some (model_Path m, map part_Path (model_Parts m))"
    unfolding k' using m by (simp add: modelElection_def)
  finally have el: "modelElection (addModelToKitfile e (initialKitfile packageOpt) baseDir
            (modelCandidates e baseDir ds)) = Some (model_Path m, map part_Path (model_Parts m))" .
  show "modelElection (Inr kitfile) =
       map_option (\<lambda>(p, parts). (p, parts @ metadataFiles e ds))
         (modelElection (addModelToKitfile e (initialKitfile packageOpt) baseDir
            (modelCandidates e baseDir ds)))"
    unfolding el modelElection_Inr kitfile attachLicense_paths(3) addCodeLayers_fields(3) km
    by (simp add: comp_def)
  show "kf_Model kitfile \<noteq> None"
    unfolding kitfile attachLicense_Model_None addCodeLayers_fields(3) km by simp
  show "map dataset_Path (kf_DataSets kitfile) = passDatasets e baseDir ds"
    unfolding kitfile attachLicense_paths(2) addCodeLayers_fields(2) dsets
    by (rule dataset_Path_newDataSet)
qed

lemma GenerateKitfile_without_model:
  assumes rd: "ReadDir e baseDir = Inr ds"
    and gen: "GenerateKitfile e baseDir packageOpt = Inr kitfile"
    and em: "modelCandidates e baseDir ds = []"
  shows "kf_Model kitfile = None"
    and "map dataset_Path (kf_DataSets kitfile) = passDatasets e baseDir ds @ metadataFiles e ds"
proof -
  from GenerateKitfile_Inr [OF rd gen] em obtain k where
    kitfile: "kitfile = attachLicense
       (addCodeLayers k (catchAllFlag e ds) (unprocessedDirs e baseDir ds))
       (detectedLicense e baseDir ds)"
    and km: "kf_Model k = None"
    and dsets: "kf_DataSets k = map newDataSet (passDatasets e baseDir ds @ metadataFiles e ds)"
    by metis
  show "kf_Model kitfile = None"
    unfolding kitfile attachLicense_Model_None addCodeLayers_fields(3) by (rule km)
  show "map dataset_Path (kf_DataSets kitfile) = passDatasets e baseDir ds @ metadataFiles e ds"
    unfolding kitfile attachLicense_paths(2) addCodeLayers_fields(2) dsets
    by (rule dataset_Path_newDataSet)
qed

text \<open>
  Claim C9. After the pass over the root's entries, when there is a model candidate (a
  plain file of the root or one returned by the summary of a subdirectory), the parts of
  the generated model are the parts the model assembler elects followed by the pending
  metadata files in the order met, and no metadata file becomes a dataset. When there is
  no model candidate, the manifest has no model and the pending metadata files follow the
  datasets of the pass, each as a dataset of its own, in the order met.
\<close>

theorem GenerateKitfile_metadata:
  assumes "ReadDir e baseDir = Inr ds"
    and "GenerateKitfile e baseDir packageOpt = Inr kitfile"
  shows "if modelCandidates e baseDir ds \<noteq> [] then
       modelElection (Inr kitfile) =
         map_option (\<lambda>(p, parts). (p, parts @ metadataFiles e ds))
           (modelElection (addModelToKitfile e (initialKitfile packageOpt) baseDir
              (modelCandidates e baseDir ds)))
       \<and> kf_Model kitfile \<noteq> None
       \<and> map dataset_Path (kf_DataSets kitfile) = passDatasets e baseDir ds
     else
       kf_Model kitfile = None
       \<and> map dataset_Path (kf_DataSets kitfile) =
           passDatasets e baseDir ds @ metadataFiles e ds"
  using GenerateKitfile_with_model [OF assms] GenerateKitfile_without_model [OF assms]
  by simp


lemma metadataEnv_run:
  "ReadDir metadataEnv ''meta'' = Inr metadataEntries"
  "GenerateKitfile metadataEnv ''meta'' None = Inr metadataManifest"
  "modelCandidates metadataEnv ''meta'' metadataEntries = []"
  "metadataFiles metadataEnv metadataEntries = [''config.json'', ''labels.txt'']"
  "passDatasets metadataEnv ''meta'' metadataEntries = [''data.csv'']"
  by code_simp+

lemma projectEnv_election:
  "modelElection (addModelToKitfile projectEnv (initialKitfile None) ''proj''
     [''weights/model.safetensors'', ''weights/adapter.bin'', ''weights/config.json'',
      ''mixed/draft.pt'']) =
   Some (''weights/model.safetensors'',
         [''weights/adapter.bin'', ''weights/config.json'', ''mixed/draft.pt''])"
  by code_simp

theorem GenerateKitfile_metadata_witness:
  "modelElection (Inr projectManifest) =
     Some (''weights/model.safetensors'',
           [''weights/adapter.bin'', ''weights/config.json'', ''mixed/draft.pt'',
            ''tokenizer.json''])
   \<and> map dataset_Path (kf_DataSets projectManifest) = [''data'']
   \<and> kf_Model metadataManifest = None
   \<and> map dataset_Path (kf_DataSets metadataManifest) =
       [''data.csv'', ''config.json'', ''labels.txt'']"
  using GenerateKitfile_metadata [OF projectEnv_run]
    GenerateKitfile_metadata [OF metadataEnv_run(1,2)]
  by (simp add: projectEnv_pass projectEnv_election metadataEnv_run)

lemma attachLicense_cases:
  assumes "modelLicense k = []" and "noLicense (datasetLicenses k)"
    and "noLicense (codeLicenses k)"
  shows "if kf_Model (attachLicense k lic) \<noteq> None \<and> lic \<noteq> [] then
       modelLicense (attachLicense k lic) = lic
       \<and> noLicense (datasetLicenses (attachLicense k lic))
       \<and> noLicense (codeLicenses (attachLicense k lic))
       \<and> kf_Package (attachLicense k lic) = kf_Package k
     else if length (kf_DataSets (attachLicense k lic)) = 1 then
       datasetLicenses (attachLicense k lic) = [lic]
       \<and> modelLicense (attachLicense k lic) = []
       \<and> noLicense (codeLicenses (attachLicense k lic))
       \<and> kf_Package (attachLicense k lic) = kf_Package k
     else if length (kf_Code (attachLicense k lic)) = 1 then
       codeLicenses (attachLicense k lic) = [lic]
       \<and> modelLicense (attachLicense k lic) = []
       \<and> noLicense (datasetLicenses (attachLicense k lic))
       \<and> kf_Package (attachLicense k lic) = kf_Package k
     else
       kf_Package (attachLicense k lic) = (kf_Package k)\<lparr>pkg_License := lic\<rparr>
       \<and> modelLicense (attachLicense k lic) = []
       \<and> noLicense (datasetLicenses (attachLicense k lic))
       \<and> noLicense (codeLicenses (attachLicense k lic))"
proof (cases "kf_Model k \<noteq> None \<and> lic \<noteq> []")
  case True
  then show ?thesis using assms
    by (auto simp: attachLicense_def modelLicense_def datasetLicenses_def codeLicenses_def)
next
  case nomodel: False
  show ?thesis
  proof (cases "length (kf_DataSets k) = 1")
    case True
    then obtain x where x: "kf_DataSets k = [x]" by (cases "kf_DataSets k") auto
    show ?thesis using nomodel x assms
      by (auto simp: attachLicense_def modelLicense_def datasetLicenses_def codeLicenses_def)
  next
    case nods: False
    show ?thesis
    proof (cases "length (kf_Code k) = 1")
      case True
      then obtain x where x: "kf_Code k = [x]" by (cases "kf_Code k") auto
      show ?thesis using nomodel nods x assms
        by (auto simp: attachLicense_def modelLicense_def datasetLicenses_def codeLicenses_def)
    next
      case False
      show ?thesis using nomodel nods False assms
        by (auto simp: attachLicense_def modelLicense_def datasetLicenses_def codeLicenses_def)
    qed
  qed
qed


lemma noLicense_new:
  "noLicense (map dataset_License (map newDataSet ps))"
  "noLicense (map code_License (map newCode ps))"
  by (simp_all add: noLicense_def list_all_iff newDataSet_def newCode_def)

lemma GenerateKitfile_before_license:
  assumes rd: "ReadDir e baseDir = Inr ds"
    and gen: "GenerateKitfile e baseDir packageOpt = Inr kitfile"
  obtains k where "kitfile = attachLicense k (detectedLicense e baseDir ds)"
    and "modelLicense k = []" and "noLicense (datasetLicenses k)"
    and "noLicense (codeLicenses k)" and "kf_Package k = packageOf packageOpt"
proof -
  from GenerateKitfile_Inr [OF rd gen] obtain k where
    kitfile: "kitfile = attachLicense
       (addCodeLayers k (catchAllFlag e ds) (unprocessedDirs e baseDir ds))
       (detectedLicense e baseDir ds)"
    and pkg: "kf_Package k = (case packageOpt of None \<Rightarrow> emptyPackage | Some p \<Rightarrow> p)"
    and code: "kf_Code k = map newCode (codeDirs e ds)"
    and nomodel: "modelCandidates e baseDir ds = [] \<Longrightarrow>
           kf_Model k = None \<and>
           kf_DataSets k = map newDataSet (passDatasets e baseDir ds @ metadataFiles e ds)"
    and model: "modelCandidates e baseDir ds \<noteq> [] \<Longrightarrow>
           kf_DataSets k = map newDataSet (passDatasets e baseDir ds) \<and>
           (\<exists>k' m. addModelToKitfile e
                (st_kitfile (rootLoop e baseDir ds (initialState packageOpt)))
                baseDir (modelCandidates e baseDir ds) = Inr k' \<and>
              kf_Model k' = Some m \<and> model_License m = [] \<and>
              kf_Model k = Some (m\<lparr>model_Parts := model_Parts m @
                 map (\<lambda>p. \<lparr>part_Path = p\<rparr>) (metadataFiles e ds)\<rparr>))"
    by blast
  let ?k2 = "addCodeLayers k (catchAllFlag e ds) (unprocessedDirs e baseDir ds)"
  have m: "modelLicense ?k2 = []"
    using nomodel model
    by (cases "modelCandidates e baseDir ds = []")
      (auto simp: modelLicense_def addCodeLayers_fields(3))
  have "\<exists>ps. kf_DataSets ?k2 = map newDataSet ps"
    using nomodel model
    by (cases "modelCandidates e baseDir ds = []")
      (auto simp: addCodeLayers_fields(2) simp del: map_append)
  then have d: "noLicense (datasetLicenses ?k2)"
    unfolding datasetLicenses_def using noLicense_new(1) by auto
  have "\<exists>ps. kf_Code ?k2 = map newCode ps"
  proof (cases "catchAllFlag e ds \<or> length (unprocessedDirs e baseDir ds) > 5")
    case True
    then have "kf_Code ?k2 = map newCode [''.'']" by (simp add: addCodeLayers_fields(5))
    then show ?thesis by blast
  next
    case False
    then have "kf_Code ?k2 = map newCode (codeDirs e ds @ unprocessedDirs e baseDir ds)"
      by (simp add: addCodeLayers_fields(5) code)
    then show ?thesis by blast
  qed
  then have c: "noLicense (codeLicenses ?k2)"
    unfolding codeLicenses_def using noLicense_new(2) by auto
  have p: "kf_Package ?k2 = packageOf packageOpt"
    by (simp add: addCodeLayers_fields(4) pkg packageOf_def)
  show ?thesis using that [OF kitfile m d c p] .
qed

text \<open>
  Claim C2. A generated manifest carries the detected license in exactly one place, chosen
  in this order: the model, when the manifest has one and a license was detected;
  otherwise the only dataset, when there is exactly one; otherwise the only code entry,
  when there is exactly one; otherwise the package. The other places keep no license, and
  the package is the caller's unless it is the place chosen.
\<close>

theorem GenerateKitfile_license:
  assumes "ReadDir e baseDir = Inr ds"
    and "GenerateKitfile e baseDir packageOpt = Inr kitfile"
  shows "if kf_Model kitfile \<noteq> None \<and> detectedLicense e baseDir ds \<noteq> [] then
       modelLicense kitfile = detectedLicense e baseDir ds
       \<and> noLicense (datasetLicenses kitfile)
       \<and> noLicense (codeLicenses kitfile)
       \<and> kf_Package kitfile = packageOf packageOpt
     else if length (kf_DataSets kitfile) = 1 then
       datasetLicenses kitfile = [detectedLicense e baseDir ds]
       \<and> modelLicense kitfile = []
       \<and> noLicense (codeLicenses kitfile)
       \<and> kf_Package kitfile = packageOf packageOpt
     else if length (kf_Code kitfile) = 1 then
       codeLicenses kitfile = [detectedLicense e baseDir ds]
       \<and> modelLicense kitfile = []
       \<and> noLicense (datasetLicenses kitfile)
       \<and> kf_Package kitfile = packageOf packageOpt
     else
       kf_Package kitfile = (packageOf packageOpt)\<lparr>pkg_License := detectedLicense e baseDir ds\<rparr>
       \<and> modelLicense kitfile = []
       \<and> noLicense (datasetLicenses kitfile)
       \<and> noLicense (codeLicenses kitfile)"
proof -
  from GenerateKitfile_before_license [OF assms] obtain k where
    k: "kitfile = attachLicense k (detectedLicense e baseDir ds)"
    and clean: "modelLicense k = []" "noLicense (datasetLicenses k)" "noLicense (codeLicenses k)"
    and pkg: "kf_Package k = packageOf packageOpt"
    by blast
  show ?thesis
    using attachLicense_cases [OF clean, of "detectedLicense e baseDir ds"]
    unfolding k pkg .
qed

lemma licenseEnv_run:
  "ReadDir licenseEnv ''lic'' = Inr licenseEntries"
  "GenerateKitfile licenseEnv ''lic'' None = Inr licenseManifest"
  "detectedLicense licenseEnv ''lic'' licenseEntries = ''Apache-2.0''"
  by code_simp+

theorem GenerateKitfile_license_witness:
  "modelLicense projectManifest = ''MIT''
   \<and> noLicense (datasetLicenses projectManifest)
   \<and> noLicense (codeLicenses projectManifest)
   \<and> kf_Package projectManifest = emptyPackage
   \<and> kf_Package licenseManifest = emptyPackage\<lparr>pkg_License := ''Apache-2.0''\<rparr>
   \<and> modelLicense licenseManifest = []"
proof -
  have a: "kf_Model projectManifest \<noteq> None" "kf_Model licenseManifest = None"
    "kf_DataSets licenseManifest = []" "kf_Code licenseManifest = []"
    by (simp_all add: projectManifest_def licenseManifest_def)
  show ?thesis
    using GenerateKitfile_license [OF projectEnv_run]
      GenerateKitfile_license [OF licenseEnv_run(1,2)]
    by (simp add: a projectEnv_pass licenseEnv_run packageOf_def)
qed


text \<open>
  Claim C8. Generation ends in an error exactly when the root directory cannot be read,
  or when there are two or more model candidates and \<^verbatim>\<open>os.Stat\<close> fails on one of them. In
  every other case (a subdirectory that cannot be read, a directory of mixed contents, a
  license file that cannot be read or matched) it returns a manifest and no error.
\<close>

theorem GenerateKitfile_error_iff:
  "isl (GenerateKitfile e baseDir packageOpt) \<longleftrightarrow>
     (case ReadDir e baseDir of
        Inl oserr \<Rightarrow> True
      | Inr ds \<Rightarrow>
          2 \<le> length (modelCandidates e baseDir ds) \<and>
          list_ex (\<lambda>p. isl (Stat e (Join e baseDir p))) (modelCandidates e baseDir ds))"
proof -
  have "isl (GenerateKitfile e baseDir packageOpt) \<longleftrightarrow>
      (\<exists>err. GenerateKitfile e baseDir packageOpt = Inl err)"
    by (cases "GenerateKitfile e baseDir packageOpt") simp_all
  then show ?thesis by (simp only: GenerateKitfile_Inl_iff)
qed

lemma brokenEnv_run:
  "ReadDir brokenEnv ''broken'' = Inr brokenEntries"
  "modelCandidates brokenEnv ''broken'' brokenEntries = [''mixed/draft.pt'']"
  "unprocessedDirs brokenEnv ''broken'' brokenEntries = [''locked'', ''mixed'']"
  "detectedLicense brokenEnv ''broken'' brokenEntries = []"
  "GenerateKitfile brokenEnv ''broken'' None = Inr brokenManifest"
  "ReadDir brokenEnv ''gone'' = Inr [DirEntry ''a.bin'' False, DirEntry ''b.bin'' False]"
  "modelCandidates brokenEnv ''gone'' [DirEntry ''a.bin'' False, DirEntry ''b.bin'' False] =
     [''a.bin'', ''b.bin'']"
  "Stat brokenEnv (Join brokenEnv ''gone'' ''a.bin'') = Inr 100"
  "Stat brokenEnv (Join brokenEnv ''gone'' ''b.bin'') = Inl ''no such file or directory''"
  "ReadDir brokenEnv ''nowhere'' = Inl ''no such file or directory''"
  by code_simp+

theorem GenerateKitfile_error_iff_witness:
  "\<not> isl (GenerateKitfile brokenEnv ''broken'' None)
   \<and> GenerateKitfile brokenEnv ''broken'' None = Inr brokenManifest
   \<and> isl (GenerateKitfile brokenEnv ''gone'' None)
   \<and> isl (GenerateKitfile brokenEnv ''nowhere'' None)"
  using GenerateKitfile_error_iff [of brokenEnv "''broken''" None]
    GenerateKitfile_error_iff [of brokenEnv "''gone''" None]
    GenerateKitfile_error_iff [of brokenEnv "''nowhere''" None]
  by (simp add: brokenEnv_run)

lemma addModelToKitfile_single:
  "addModelToKitfile e kitfile baseDir [p] =
     Inr (kitfile\<lparr>kf_Model := Some \<lparr>model_Path = p,
            model_Name = TrimSuffix (Base p) (Ext (Base p)),
            model_License = [], model_Parts = []\<rparr>\<rparr>)"
  by (simp add: addModelToKitfile_def Let_def)

text \<open>
  Claim C5 says that the name of the model is the base name of its file without the
  extension. With two model files of one size the first is elected and the name stays
  empty, where the claim asks for \<^verbatim>\<open>a\<close>; with a dominant file in a subdirectory the name
  keeps the directory, where the claim asks for \<^verbatim>\<open>model\<close>.
\<close>

theorem GenerateKitfile_two_models_name:
  "GenerateKitfile twoModelsEnv ''root'' None = Inr twoModelsManifest
   \<and> map_option model_Path (kf_Model twoModelsManifest) = Some ''a.bin''
   \<and> map_option model_Name (kf_Model twoModelsManifest) = Some []
   \<and> TrimSuffix (Base ''a.bin'') (Ext (Base ''a.bin'')) = ''a''
   \<and> map_option model_Path (kf_Model projectManifest) = Some ''weights/model.safetensors''
   \<and> map_option model_Name (kf_Model projectManifest) = Some ''weights/model''
   \<and> TrimSuffix (Base ''weights/model.safetensors'') (Ext (Base ''weights/model.safetensors''))
       = ''model''"
  by code_simp

end
